theory Spec2Isabelle
  imports Main "HOL-Library.Word"
begin

section \<open>Bits, buffers and big numbers\<close>

text \<open>
  A JavaScript string is modelled by its UTF-8 bytes (\<open>string\<close>, a list of 8-bit
  characters), which is what both \<open>Buffer.from(s)\<close> and \<open>Sha256.update(s)\<close> consume.
  A \<open>Buffer\<close> is a list of bytes too.  A \<open>BN\<close> that is never negative is a \<open>nat\<close>.
\<close>

type_synonym Buffer = string

text \<open>The \<open>n\<close> low bits of \<open>v\<close>, most significant first (the order a bit string is written in).\<close>

fun uint_bits :: "nat \<Rightarrow> nat \<Rightarrow> bool list" where
  "uint_bits 0 v = []"
| "uint_bits (Suc n) v = uint_bits n (v div 2) @ [odd v]"

text \<open>A bit string read as an unsigned big-endian number.\<close>

definition bits_uint :: "bool list \<Rightarrow> nat" where
  "bits_uint bs = foldl (\<lambda>a b. 2 * a + (if b then 1 else 0)) 0 bs"

definition byte_bits :: "char \<Rightarrow> bool list" where
  "byte_bits c = uint_bits 8 (of_char c)"

definition buffer_bits :: "Buffer \<Rightarrow> bool list" where
  "buffer_bits buf = concat (map byte_bits buf)"

text \<open>\<open>new BN(buffer)\<close>: the bytes as one big-endian unsigned number.\<close>

definition buffer_uint :: "Buffer \<Rightarrow> nat" where
  "buffer_uint buf = foldl (\<lambda>a c. 256 * a + of_char c) 0 buf"

text \<open>The \<open>n\<close> low bytes of \<open>v\<close>, most significant first.\<close>

fun uint_bytes :: "nat \<Rightarrow> nat \<Rightarrow> Buffer" where
  "uint_bytes 0 v = []"
| "uint_bytes (Suc n) v = uint_bytes n (v div 256) @ [char_of v]"

text \<open>A 256-bit digest as the 32-byte buffer the digest functions return.\<close>

definition digest_buffer :: "256 word \<Rightarrow> Buffer" where
  "digest_buffer w = uint_bytes 32 (unat w)"

text \<open>Whole bytes of a bit string; an incomplete last byte is dropped.\<close>

fun bits_bytes :: "bool list \<Rightarrow> Buffer" where
  "bits_bytes (b7 # b6 # b5 # b4 # b3 # b2 # b1 # b0 # rest) =
     Char b0 b1 b2 b3 b4 b5 b6 b7 # bits_bytes rest"
| "bits_bytes _ = []"

text \<open>Number of bytes of a number: \<open>Math.ceil(amount.toString(16).length / 2)\<close> for \<open>amount > 0\<close>.\<close>

fun byte_length :: "nat \<Rightarrow> nat" where
  "byte_length n = (if n = 0 then 0 else Suc (byte_length (n div 256)))"

declare byte_length.simps [simp del]

section \<open>The cell library the encoders are written against\<close>

text \<open>
  The functions of this section belong to the packages the source imports (\<open>ton\<close>,
  \<open>bn.js\<close>, Node's \<open>Buffer\<close>), not to the repository; they are modelled as far as
  the encoders use them.  \<open>storeUint\<close> raises when the value does not fit the width.
\<close>

datatype Cell = Cell (cell_bits: "bool list") (cell_refs: "Cell list")

record Builder =
  b_bits :: "bool list"
  b_refs :: "Cell list"

datatype error =
    RangeError         \<comment> \<open>\<open>bitLength is too small for a value\<close>\<close>
  | BitStringOverflow  \<comment> \<open>\<open>Invalid index\<close>: a write past the end of the builder's bits\<close>
  | UnsupportedAddress \<comment> \<open>\<open>Only STD address supported\<close>, or a read past the end\<close>

fun bind_err :: "error + 'a \<Rightarrow> ('a \<Rightarrow> error + 'b) \<Rightarrow> error + 'b" where
  "bind_err (Inl e) f = Inl e"
| "bind_err (Inr x) f = f x"

definition beginCell :: Builder where
  "beginCell = \<lparr>b_bits = [], b_refs = []\<rparr>"

definition endCell :: "Builder \<Rightarrow> Cell" where
  "endCell b = Cell (b_bits b) (b_refs b)"

text \<open>
  The builder allocates 1023 bits and writes bit by bit; the write of the bit at index
  \<open>n\<close> raises when \<open>n\<close> is greater than 1023.  So the bits at the indices from 0 to
  1023 are written, 1024 bits in all, and the first write to raise is the one at index
  1024.
\<close>

definition writeBits :: "bool list \<Rightarrow> Builder \<Rightarrow> error + Builder" where
  "writeBits bs b =
     (if length (b_bits b) + length bs \<le> 1024 then Inr (b\<lparr>b_bits := b_bits b @ bs\<rparr>)
      else Inl BitStringOverflow)"

definition storeUint :: "nat \<Rightarrow> nat \<Rightarrow> Builder \<Rightarrow> error + Builder" where
  "storeUint v n b = (if v < 2 ^ n then writeBits (uint_bits n v) b else Inl RangeError)"

text \<open>\<open>storeInt\<close>: a sign bit and the rest in two's complement; the value has to fit.\<close>

definition storeInt :: "int \<Rightarrow> nat \<Rightarrow> Builder \<Rightarrow> error + Builder" where
  "storeInt v n b =
     (if n = 0 \<or> v < - (2 ^ (n - 1)) \<or> 2 ^ (n - 1) \<le> v then Inl RangeError
      else writeBits (uint_bits n (nat (v mod 2 ^ n))) b)"

definition storeBuffer :: "Buffer \<Rightarrow> Builder \<Rightarrow> error + Builder" where
  "storeBuffer buf b = writeBits (buffer_bits buf) b"

definition storeRef :: "Cell \<Rightarrow> Builder \<Rightarrow> error + Builder" where
  "storeRef c b = Inr (b\<lparr>b_refs := b_refs b @ [c]\<rparr>)"

text \<open>\<open>storeDict(cell)\<close> with a cell that is not null: a presence bit and a reference.\<close>

definition storeDict :: "Cell \<Rightarrow> Builder \<Rightarrow> error + Builder" where
  "storeDict c b = bind_err (writeBits [True] b) (storeRef c)"

text \<open>\<open>storeCoins\<close>: the number of bytes of the amount in four bits, then the bytes.\<close>

definition storeCoins :: "nat \<Rightarrow> Builder \<Rightarrow> error + Builder" where
  "storeCoins amount b =
     (if amount = 0 then storeUint 0 4 b
      else bind_err (storeUint (byte_length amount) 4 b)
             (storeUint amount (byte_length amount * 8)))"

text \<open>
  A standard address: the workchain is the signed 8-bit field of the wire format and
  the hash is 32 bytes.
\<close>

record Address =
  workChain :: "8 word"
  hash :: "256 word"

definition storeAddress :: "Address \<Rightarrow> Builder \<Rightarrow> error + Builder" where
  "storeAddress a b =
     bind_err (storeUint 2 2 b) (\<lambda>b1.
     bind_err (storeUint 0 1 b1) (\<lambda>b2.
     bind_err (storeInt (sint (workChain a)) 8 b2)
       (storeBuffer (digest_buffer (hash a)))))"

text \<open>\<open>cell.beginParse().readAddress()\<close>: \<open>null\<close> for the empty address tag.\<close>

definition readAddress :: "Cell \<Rightarrow> error + Address option" where
  "readAddress c =
     (let bs = cell_bits c in
      if length bs < 2 then Inl UnsupportedAddress
      else if bits_uint (take 2 bs) = 0 then Inr None
      else if bits_uint (take 2 bs) \<noteq> 2 \<or> length bs < 267 \<or> bs ! 2 then Inl UnsupportedAddress
      else Inr (Some \<lparr>workChain = of_nat (bits_uint (take 8 (drop 3 bs))),
                      hash = of_nat (bits_uint (take 256 (drop 11 bs)))\<rparr>))"

text \<open>
  \<open>Buffer.from(s, "base64")\<close> reads the UTF-16 code units of the text, each cut to its
  low byte.  A text of the model is the UTF-8 encoding of a JavaScript string, so its
  code units are decoded from it first: one unit for a sequence of one, two or three
  bytes, a pair of surrogates for a sequence of four.  Bytes that are no UTF-8 are
  outside the texts and are kept as they are.
\<close>

fun utf16_low_bytes :: "string \<Rightarrow> Buffer" where
  "utf16_low_bytes [] = []"
| "utf16_low_bytes (c # cs) =
     (if (of_char c :: nat) < 192 then c # utf16_low_bytes cs
      else if (of_char c :: nat) < 224 then
        (case cs of
           c1 # rest \<Rightarrow>
             char_of ((of_char c :: nat) mod 32 * 64 + of_char c1 mod 64) # utf16_low_bytes rest
         | _ \<Rightarrow> c # cs)
      else if (of_char c :: nat) < 240 then
        (case cs of
           c1 # c2 # rest \<Rightarrow>
             char_of ((of_char c :: nat) mod 16 * 4096 + of_char c1 mod 64 * 64 + of_char c2 mod 64)
               # utf16_low_bytes rest
         | _ \<Rightarrow> c # cs)
      else
        (case cs of
           c1 # c2 # c3 # rest \<Rightarrow>
             char_of (55296 + ((of_char c :: nat) mod 8 * 262144 + of_char c1 mod 64 * 4096 +
                        of_char c2 mod 64 * 64 + of_char c3 mod 64 - 65536) div 1024)
               # char_of (56320 + ((of_char c :: nat) mod 8 * 262144 + of_char c1 mod 64 * 4096 +
                          of_char c2 mod 64 * 64 + of_char c3 mod 64 - 65536) mod 1024)
               # utf16_low_bytes rest
         | _ \<Rightarrow> c # cs))"

text \<open>
  The decoding never raises: bytes outside the alphabet are skipped, the first \<open>=\<close>
  ends the input, and bits that do not fill a byte are dropped.  Both the standard and
  the URL-safe alphabet are read.
\<close>

definition unbase64 :: "char \<Rightarrow> nat option" where
  "unbase64 c =
     (let n = (of_char c :: nat) in
      if 65 \<le> n \<and> n \<le> 90 then Some (n - 65)
      else if 97 \<le> n \<and> n \<le> 122 then Some (n - 71)
      else if 48 \<le> n \<and> n \<le> 57 then Some (n + 4)
      else if n = 43 \<or> n = 45 then Some 62
      else if n = 47 \<or> n = 95 then Some 63
      else None)"

definition Buffer_from_base64 :: "string \<Rightarrow> Buffer" where
  "Buffer_from_base64 s =
     bits_bytes (concat (map (uint_bits 6)
       (List.map_filter unbase64 (takeWhile (\<lambda>c. c \<noteq> CHR ''='') (utf16_low_bytes s)))))"

text \<open>
  Well-formed base64 text (RFC 4648 with padding): groups of four characters of the
  standard alphabet, the last group ending in at most two \<open>=\<close>.
\<close>

definition std_base64_char :: "char \<Rightarrow> bool" where
  "std_base64_char c = (unbase64 c \<noteq> None \<and> c \<noteq> CHR ''-'' \<and> c \<noteq> CHR ''_'')"

definition wellformed_base64 :: "string \<Rightarrow> bool" where
  "wellformed_base64 s =
     (length s mod 4 = 0 \<and>
      (let body = takeWhile (\<lambda>c. c \<noteq> CHR ''='') s; pad = dropWhile (\<lambda>c. c \<noteq> CHR ''='') s
       in list_all std_base64_char body \<and> length pad \<le> 2 \<and> list_all (\<lambda>c. c = CHR ''='') pad))"

section \<open>The registry's client functions\<close>

text \<open>
  The two digests are library functions and are parameters of the model: \<open>sha\<close> is
  SHA-256 over the UTF-8 bytes of a string, \<open>chash\<close> is the representation hash of a
  cell (\<open>Cell.hash()\<close>).  \<open>sourceItemCode\<close> is the cell parsed from the compiled child
  contract, \<open>Cell.fromBoc(sourceItemHex)[0]\<close>, whose bytes are not part of the sources.
  The local cells \<open>data\<close> and \<open>si\<close> of \<open>keyToAddress\<close> are functions of their own,
  so that theorems can speak of them.
\<close>

definition prepareKey :: "(string \<Rightarrow> 256 word) \<Rightarrow> string \<Rightarrow> string \<Rightarrow> Buffer" where
  "prepareKey sha verifierId codeCell = digest_buffer (sha (verifierId @ '':'' @ codeCell))"

definition keyToAddress_data ::
  "(string \<Rightarrow> 256 word) \<Rightarrow> string \<Rightarrow> string \<Rightarrow> Address \<Rightarrow> error + Cell" where
  "keyToAddress_data sha verifierId codeCell registryAddress =
     bind_err (storeBuffer (prepareKey sha verifierId codeCell) beginCell) (\<lambda>b1.
     bind_err (storeAddress registryAddress b1) (\<lambda>b2. Inr (endCell b2)))"

definition keyToAddress_si ::
  "(string \<Rightarrow> 256 word) \<Rightarrow> Cell \<Rightarrow> string \<Rightarrow> string \<Rightarrow> Address \<Rightarrow> error + Cell" where
  "keyToAddress_si sha sourceItemCode verifierId codeCell registryAddress =
     bind_err (keyToAddress_data sha verifierId codeCell registryAddress) (\<lambda>data.
     bind_err (storeUint 0 2 beginCell) (\<lambda>b1.
     bind_err (storeDict sourceItemCode b1) (\<lambda>b2.
     bind_err (storeDict data b2) (\<lambda>b3.
     bind_err (storeUint 0 1 b3) (\<lambda>b4. Inr (endCell b4))))))"

definition keyToAddress ::
  "(string \<Rightarrow> 256 word) \<Rightarrow> (Cell \<Rightarrow> 256 word) \<Rightarrow> Cell \<Rightarrow>
     string \<Rightarrow> string \<Rightarrow> Address \<Rightarrow> error + Address option" where
  "keyToAddress sha chash sourceItemCode verifierId codeCell registryAddress =
     bind_err (keyToAddress_si sha sourceItemCode verifierId codeCell registryAddress) (\<lambda>si.
     bind_err (storeUint 4 3 beginCell) (\<lambda>b1.
     bind_err (storeInt 0 8 b1) (\<lambda>b2.
     bind_err (storeUint (buffer_uint (digest_buffer (chash si))) 256 b2) (\<lambda>b3.
     readAddress (endCell b3)))))"

text \<open>
  The registry's storage, \<open>data(params)\<close>; the fields of \<open>params\<close> are the arguments.
\<close>

definition data :: "Cell \<Rightarrow> nat \<Rightarrow> nat \<Rightarrow> Address \<Rightarrow> Address \<Rightarrow> error + Cell" where
  "data sourceItemCode minTons maxTons verifierRegistryAddress admin =
     bind_err (storeCoins minTons beginCell) (\<lambda>b1.
     bind_err (storeCoins maxTons b1) (\<lambda>b2.
     bind_err (storeAddress admin b2) (\<lambda>b3.
     bind_err (storeAddress verifierRegistryAddress b3) (\<lambda>b4.
     bind_err (storeRef sourceItemCode b4) (\<lambda>b5. Inr (endCell b5))))))"

definition toSha256Buffer :: "(string \<Rightarrow> 256 word) \<Rightarrow> string \<Rightarrow> Buffer" where
  "toSha256Buffer sha s = digest_buffer (sha s)"

definition deploySource ::
  "(string \<Rightarrow> 256 word) \<Rightarrow> string \<Rightarrow> string \<Rightarrow> string \<Rightarrow> error + Cell" where
  "deploySource sha verifierId codeCellHash jsonURL =
     bind_err (storeUint 1002 32 beginCell) (\<lambda>b1.
     bind_err (storeUint 0 64 b1) (\<lambda>b2.
     bind_err (storeBuffer (toSha256Buffer sha verifierId) b2) (\<lambda>b3.
     bind_err (storeUint (buffer_uint (Buffer_from_base64 codeCellHash)) 256 b3) (\<lambda>b4.
     bind_err (storeBuffer jsonURL beginCell) (\<lambda>u.
     bind_err (storeRef (endCell u) b4) (\<lambda>b5. Inr (endCell b5)))))))"

definition changeVerifierRegistry :: "Address \<Rightarrow> error + Cell" where
  "changeVerifierRegistry newVerifierRegistry =
     bind_err (storeUint 2003 32 beginCell) (\<lambda>b1.
     bind_err (storeUint 0 64 b1) (\<lambda>b2.
     bind_err (storeAddress newVerifierRegistry b2) (\<lambda>b3. Inr (endCell b3))))"

definition changeAdmin :: "Address \<Rightarrow> error + Cell" where
  "changeAdmin newAdmin =
     bind_err (storeUint 3004 32 beginCell) (\<lambda>b1.
     bind_err (storeUint 0 64 b1) (\<lambda>b2.
     bind_err (storeAddress newAdmin b2) (\<lambda>b3. Inr (endCell b3))))"

definition setSourceItemCode :: "Cell \<Rightarrow> error + Cell" where
  "setSourceItemCode newCode =
     bind_err (storeUint 4005 32 beginCell) (\<lambda>b1.
     bind_err (storeUint 0 64 b1) (\<lambda>b2.
     bind_err (storeRef newCode b2) (\<lambda>b3. Inr (endCell b3))))"

definition changeCode :: "Cell \<Rightarrow> error + Cell" where
  "changeCode newCode =
     bind_err (storeUint 5006 32 beginCell) (\<lambda>b1.
     bind_err (storeUint 0 64 b1) (\<lambda>b2.
     bind_err (storeRef newCode b2) (\<lambda>b3. Inr (endCell b3))))"

definition setDeploymentCosts :: "nat \<Rightarrow> nat \<Rightarrow> error + Cell" where
  "setDeploymentCosts minTon maxTon =
     bind_err (storeUint 6007 32 beginCell) (\<lambda>b1.
     bind_err (storeUint 0 64 b1) (\<lambda>b2.
     bind_err (storeCoins minTon b2) (\<lambda>b3.
     bind_err (storeCoins maxTon b3) (\<lambda>b4. Inr (endCell b4)))))"

text \<open>
  The fields every message starts with: the operation tag in the first 32 bits and the
  query identifier in the 64 bits after them.  A cell that is too short to hold the
  field has none.
\<close>

definition op_tag :: "Cell \<Rightarrow> nat option" where
  "op_tag c =
     (if length (cell_bits c) < 32 then None else Some (bits_uint (take 32 (cell_bits c))))"

definition query_id :: "Cell \<Rightarrow> nat option" where
  "query_id c =
     (if length (cell_bits c) < 96 then None
      else Some (bits_uint (take 64 (drop 32 (cell_bits c)))))"


text \<open>The bits of a standard address and of an amount on the wire.\<close>

definition address_bits :: "Address \<Rightarrow> bool list" where
  "address_bits a =
     [True, False, False] @ uint_bits 8 (unat (workChain a)) @ uint_bits 256 (unat (hash a))"

definition coins_bits :: "nat \<Rightarrow> bool list" where
  "coins_bits amount =
     uint_bits 4 (byte_length amount) @ uint_bits (8 * byte_length amount) amount"

text \<open>Two different inputs with the same digest.\<close>

definition collision :: "('a \<Rightarrow> 256 word) \<Rightarrow> 'a \<Rightarrow> 'a \<Rightarrow> bool" where
  "collision h x y = (x \<noteq> y \<and> h x = h y)"

text \<open>
  Stand-ins for the two digests where a result is evaluated at a concrete input and does
  not depend on the digest.
\<close>

definition null_digest :: "string \<Rightarrow> 256 word" where
  "null_digest s = 0"

definition null_cell_digest :: "Cell \<Rightarrow> 256 word" where
  "null_cell_digest c = 0"

section \<open>The registry contract and the child record\<close>

text \<open>
  The contracts themselves (the registry's message handler and the child record) are
  not among the sources; the sources hold the client functions above and the tests
  that drive the contracts.  The definitions of this section follow the specification
  and are checked against the expectations of the tests.  Amounts are in the smallest
  unit: one native unit is \<open>10\<^sup>9\<close> of them, so \<open>toNano(0.05)\<close> is 50000000.
\<close>

text \<open>Modelled from the spec: the registry's persistent state (section 3, RegistryState).\<close>

record RegistryState =
  admin :: Address
  verifierSource :: Address
  minFee :: nat
  maxFee :: nat
  childCodeTemplate :: Cell

text \<open>Modelled from the spec: the registry as a whole, its state and its own executable
  code, which ReplaceRegistryCode replaces (section 4.3).\<close>

record Registry = RegistryState +
  ownCode :: Cell

text \<open>Modelled from the spec: the execution context of section 4.3, who sent the message
  and with what value attached.\<close>

record exec_context =
  senderAddress :: Address
  attachedValue :: nat

text \<open>Modelled from the spec: the operations of the dispatch table of section 4.3.  A deploy
  request carries the two key fields and the content pointer, as on the wire.\<close>

datatype operation =
    DeploySource "256 word" "256 word" string
  | ChangeVerifierSource Address
  | ChangeAdmin Address
  | SetChildCodeTemplate Cell
  | ReplaceRegistryCode Cell
  | SetFeeBounds nat nat
  | UnknownOperation nat

text \<open>Modelled from the spec: the state of a child record (section 3, ChildRecordState, with
  the two key fields of section 4.5); \<open>creatorRegistry\<close> is the spec's registryAddress.\<close>

record ChildRecordState =
  verifierKey :: "256 word"
  contentKey :: "256 word"
  creatorRegistry :: Address
  contentPointer :: "string option"

text \<open>Modelled from the spec: the deployment action (glossary): the derived address, the
  child's code and initial storage, and the forwarded message with the content pointer.\<close>

record deployment_action =
  childAddress :: Address
  childCode :: Cell
  initialStorage :: ChildRecordState
  forwardedPointer :: string

text \<open>Modelled from the spec: the result of applying a message, with the result codes of
  section 6.  The spec gives malformed and unrecognised messages some other non-zero code
  without fixing it; 65535 stands for it here.\<close>

datatype outcome = Success "deployment_action option" | Rejection nat

text \<open>Modelled from the spec: the result code of an outcome (section 6), 0 for success.\<close>

fun exit_code :: "outcome \<Rightarrow> nat" where
  "exit_code (Success _) = 0"
| "exit_code (Rejection n) = n"

text \<open>Modelled from the spec: the other non-zero code of section 6.\<close>

definition other_failure :: nat where
  "other_failure = 65535"

text \<open>Modelled from the spec: a code cell is empty when it holds nothing (the tests send
  \<open>beginCell().endCell()\<close> as the empty code and a cell of one bit as a code that is not).\<close>

definition empty_code :: "Cell \<Rightarrow> bool" where
  "empty_code c = (cell_bits c = [] \<and> cell_refs c = [])"

text \<open>Modelled from the spec: the child's initial storage of section 4.2, the tuple
  (verifierKey, contentKey, registryAddress, empty-content-marker).\<close>

definition initial_storage :: "256 word \<Rightarrow> 256 word \<Rightarrow> Address \<Rightarrow> ChildRecordState" where
  "initial_storage vk ck registry =
     \<lparr>verifierKey = vk, contentKey = ck, creatorRegistry = registry, contentPointer = None\<rparr>"

text \<open>Modelled from the spec: AddressDerivation (section 4.2): the digest of the child's
  initial program image (code template and initial storage), tagged with the address
  format and workchain 0.  The digest of the image is a parameter.\<close>

definition derive_address ::
  "(Cell \<times> ChildRecordState \<Rightarrow> 256 word) \<Rightarrow> Cell \<Rightarrow> 256 word \<Rightarrow> 256 word \<Rightarrow> Address \<Rightarrow> Address" where
  "derive_address image_digest template vk ck registry =
     \<lparr>workChain = 0, hash = image_digest (template, initial_storage vk ck registry)\<rparr>"

text \<open>A stand-in for the digest of a program image, as \<open>null_digest\<close> above.\<close>

definition null_image_digest :: "Cell \<times> ChildRecordState \<Rightarrow> 256 word" where
  "null_image_digest img = 0"

text \<open>Modelled from the spec: the dispatch table of section 4.3, one row per operation, the
  sender check first in every row.  \<open>min_floor\<close> is the fixed protocol-defined lower
  bound of the minimum fee, a constant of the contract that the sources do not hold.
  The spec fixes no order between the two fee checks of a deploy request, and the
  contract is not there to read it from: \<open>max_first\<close> says whether the check against
  \<open>maxFee\<close> comes before the check against \<open>minFee\<close>.  \<open>self\<close> is the registry's
  own address.\<close>

fun registry_apply ::
  "(Cell \<times> ChildRecordState \<Rightarrow> 256 word) \<Rightarrow> nat \<Rightarrow> bool \<Rightarrow> Address \<Rightarrow>
     Registry \<Rightarrow> exec_context \<Rightarrow> operation \<Rightarrow> Registry \<times> outcome" where
  "registry_apply dg min_floor max_first self st ctx (DeploySource vk ck pointer) =
     (if senderAddress ctx \<noteq> verifierSource st then (st, Rejection 401)
      else if max_first \<and> attachedValue ctx > maxFee st then (st, Rejection 901)
      else if attachedValue ctx < minFee st then (st, Rejection 900)
      else if attachedValue ctx > maxFee st then (st, Rejection 901)
      else (st, Success (Some
        \<lparr>childAddress = derive_address dg (childCodeTemplate st) vk ck self,
         childCode = childCodeTemplate st,
         initialStorage = initial_storage vk ck self,
         forwardedPointer = pointer\<rparr>)))"
| "registry_apply dg min_floor max_first self st ctx (ChangeVerifierSource newAddress) =
     (if senderAddress ctx \<noteq> admin st then (st, Rejection 401)
      else (st\<lparr>verifierSource := newAddress\<rparr>, Success None))"
| "registry_apply dg min_floor max_first self st ctx (ChangeAdmin newAddress) =
     (if senderAddress ctx \<noteq> admin st then (st, Rejection 401)
      else (st\<lparr>admin := newAddress\<rparr>, Success None))"
| "registry_apply dg min_floor max_first self st ctx (SetChildCodeTemplate newCode) =
     (if senderAddress ctx \<noteq> admin st then (st, Rejection 401)
      else if empty_code newCode then (st, Rejection 902)
      else (st\<lparr>childCodeTemplate := newCode\<rparr>, Success None))"
| "registry_apply dg min_floor max_first self st ctx (ReplaceRegistryCode newCode) =
     (if senderAddress ctx \<noteq> admin st then (st, Rejection 401)
      else if empty_code newCode then (st, Rejection 902)
      else (st\<lparr>ownCode := newCode\<rparr>, Success None))"
| "registry_apply dg min_floor max_first self st ctx (SetFeeBounds newMin newMax) =
     (if senderAddress ctx \<noteq> admin st then (st, Rejection 401)
      else if newMin < min_floor then (st, Rejection 903)
      else (st\<lparr>minFee := newMin, maxFee := newMax\<rparr>, Success None))"
| "registry_apply dg min_floor max_first self st ctx (UnknownOperation tag) = (st, Rejection other_failure)"

text \<open>Modelled from the spec: the message frames of sections 4.4 and 6: a 32-bit tag, a
  64-bit query identifier, then the fields of the operation.  A truncated frame does
  not decode.\<close>

definition load_address :: "bool list \<Rightarrow> Address option" where
  "load_address bs =
     (if 267 \<le> length bs \<and> take 3 bs = [True, False, False]
      then Some \<lparr>workChain = of_nat (bits_uint (take 8 (drop 3 bs))),
                 hash = of_nat (bits_uint (take 256 (drop 11 bs)))\<rparr>
      else None)"

definition load_coins :: "bool list \<Rightarrow> (nat \<times> bool list) option" where
  "load_coins bs =
     (if length bs < 4 \<or> length bs < 4 + 8 * bits_uint (take 4 bs) then None
      else Some (bits_uint (take (8 * bits_uint (take 4 bs)) (drop 4 bs)),
                 drop (4 + 8 * bits_uint (take 4 bs)) bs))"

definition decode_message :: "Cell \<Rightarrow> operation option" where
  "decode_message c =
     (let bs = cell_bits c; tag = bits_uint (take 32 bs); body = drop 96 bs in
      if length bs < 96 then None
      else if tag = 1002 then
        (case cell_refs c of
           [] \<Rightarrow> None
         | r # _ \<Rightarrow>
             if length body < 512 then None
             else Some (DeploySource (of_nat (bits_uint (take 256 body)))
                          (of_nat (bits_uint (take 256 (drop 256 body))))
                          (bits_bytes (cell_bits r))))
      else if tag = 2003 then map_option ChangeVerifierSource (load_address body)
      else if tag = 3004 then map_option ChangeAdmin (load_address body)
      else if tag = 4005 then
        (case cell_refs c of [] \<Rightarrow> None | r # _ \<Rightarrow> Some (SetChildCodeTemplate r))
      else if tag = 5006 then
        (case cell_refs c of [] \<Rightarrow> None | r # _ \<Rightarrow> Some (ReplaceRegistryCode r))
      else if tag = 6007 then
        (case load_coins body of
           None \<Rightarrow> None
         | Some (newMin, rest) \<Rightarrow>
             (case load_coins rest of
                None \<Rightarrow> None
              | Some (newMax, _) \<Rightarrow> Some (SetFeeBounds newMin newMax)))
      else Some (UnknownOperation tag))"

text \<open>Modelled from the spec: the registry's entry point on a message cell: decode, then
  apply; a frame that does not decode is rejected and changes nothing.\<close>

definition registry_receive ::
  "(Cell \<times> ChildRecordState \<Rightarrow> 256 word) \<Rightarrow> nat \<Rightarrow> bool \<Rightarrow> Address \<Rightarrow>
     Registry \<Rightarrow> exec_context \<Rightarrow> Cell \<Rightarrow> Registry \<times> outcome" where
  "registry_receive dg min_floor max_first self st ctx body =
     (case decode_message body of
        None \<Rightarrow> (st, Rejection other_failure)
      | Some msg \<Rightarrow> registry_apply dg min_floor max_first self st ctx msg)"

text \<open>Modelled from the spec: what a set-content message does to a child record
  (section 4.5): the pointer is stored, or the record is initialised already, or the
  sender is not the creating registry.\<close>

datatype child_result = Stored | AlreadyInitialized | Unauthorized

text \<open>Modelled from the spec: ChildRecordLogic (section 4.5).  The record is Empty while
  it has no content pointer and Initialized afterwards.  Whether a second set-content
  message fails or is ignored is left open by the spec; either way the state stays.\<close>

definition child_receive ::
  "ChildRecordState \<Rightarrow> Address \<Rightarrow> string \<Rightarrow> ChildRecordState \<times> child_result" where
  "child_receive st sender pointer =
     (if contentPointer st = None \<and> sender = creatorRegistry st
        then (st\<lparr>contentPointer := Some pointer\<rparr>, Stored)
      else if contentPointer st \<noteq> None then (st, AlreadyInitialized)
      else (st, Unauthorized))"

text \<open>Modelled from the spec: the child's read-only query.\<close>

definition child_query :: "ChildRecordState \<Rightarrow> 256 word \<times> 256 word \<times> Address \<times> string option" where
  "child_query st = (verifierKey st, contentKey st, creatorRegistry st, contentPointer st)"

text \<open>Modelled from the spec: the child's initial storage of section 4.2 as a cell: the two
  256-bit key fields, then the registry's address, and no content cell yet.\<close>

definition spec_child_storage :: "256 word \<Rightarrow> 256 word \<Rightarrow> Address \<Rightarrow> Cell" where
  "spec_child_storage vk ck registry =
     Cell (uint_bits 256 (unat vk) @ uint_bits 256 (unat ck) @ address_bits registry) []"

subsection \<open>The tests of the repository\<close>

text \<open>
  The registry as \<open>beforeEach\<close> sets it up: a minimum of 0.065 and a maximum of 1
  native unit.  \<open>randomAddress("admin")\<close> and \<open>randomAddress("verifierReg")\<close> are
  the addresses \<open>adm\<close> and \<open>ver\<close>.
\<close>

definition test_registry :: "Address \<Rightarrow> Address \<Rightarrow> Cell \<Rightarrow> Cell \<Rightarrow> Registry" where
  "test_registry adm ver template code =
     \<lparr>admin = adm, verifierSource = ver, minFee = 65000000, maxFee = 1000000000,
      childCodeTemplate = template, ownCode = code\<rparr>"

text \<open>
  \<open>it("Rejects changing min below lower bound")\<close>: the admin sends
  \<open>setDeploymentCosts(toNano(0.05), toNano(20))\<close> with 0.01 attached and the test
  expects exit code 903.  The test against a registry whose lower bound is \<open>min_floor\<close>:
\<close>

definition test_rejects_min_below_lower_bound ::
  "(Cell \<times> ChildRecordState \<Rightarrow> 256 word) \<Rightarrow> nat \<Rightarrow> bool \<Rightarrow> Address \<Rightarrow> Address \<Rightarrow> Address \<Rightarrow>
     Cell \<Rightarrow> Cell \<Rightarrow> bool" where
  "test_rejects_min_below_lower_bound dg min_floor max_first self adm ver template code =
     (case setDeploymentCosts 50000000 20000000000 of
        Inl _ \<Rightarrow> False
      | Inr body \<Rightarrow>
          exit_code (snd (registry_receive dg min_floor max_first self
            (test_registry adm ver template code)
            \<lparr>senderAddress = adm, attachedValue = 10000000\<rparr> body)) = 903)"

text \<open>
  The deploy tests send \<open>deploySource(specs[0].verifier, specs[0].codeCellHash,
  specs[0].jsonURL)\<close> from some sender with some value attached and look at the exit
  code.
\<close>

definition test_deploy_exit_code ::
  "(string \<Rightarrow> 256 word) \<Rightarrow> (Cell \<times> ChildRecordState \<Rightarrow> 256 word) \<Rightarrow> nat \<Rightarrow> bool \<Rightarrow>
     Address \<Rightarrow> Registry \<Rightarrow> Address \<Rightarrow> nat \<Rightarrow> nat option" where
  "test_deploy_exit_code sha dg min_floor max_first self st sender val =
     (case deploySource sha ''my verifier'' ''E/XXoxbG124QU+iKxZtd5loHKjiEUTcdxcW+y7oT9Q4=''
             ''https://myjson.com/sources.json'' of
        Inl _ \<Rightarrow> None
      | Inr body \<Rightarrow>
          Some (exit_code (snd (registry_receive dg min_floor max_first self st
            \<lparr>senderAddress = sender, attachedValue = val\<rparr> body))))"

section \<open>Lemmas about bits and buffers\<close>

lemma length_uint_bits: "length (uint_bits n v) = n"
  by (induction n arbitrary: v) auto

lemma uint_bits_add: "uint_bits (m + n) v = uint_bits m (v div 2 ^ n) @ uint_bits n v"
proof (induction n arbitrary: v)
  case 0
  show ?case by simp
next
  case (Suc n)
  have "v div 2 div 2 ^ n = v div 2 ^ Suc n"
    by (simp add: div_mult2_eq)
  with Suc [of "v div 2"] show ?case by simp
qed

lemma bits_uint_snoc: "bits_uint (bs @ [b]) = 2 * bits_uint bs + (if b then 1 else 0)"
  by (simp add: bits_uint_def)

lemma bits_uint_uint_bits: "bits_uint (uint_bits n v) = v mod 2 ^ n"
proof (induction n arbitrary: v)
  case 0
  show ?case by (simp add: bits_uint_def)
next
  case (Suc n)
  have "2 * (v div 2 mod 2 ^ n) + (if odd v then 1 else 0) = v mod 2 ^ Suc n"
    by (simp add: mod_mult2_eq mult.commute odd_iff_mod_2_eq_one)
  with Suc [of "v div 2"] show ?case by (simp add: bits_uint_snoc)
qed

lemma uint_bits_eq_iff: "uint_bits n v = uint_bits n w \<longleftrightarrow> v mod 2 ^ n = w mod 2 ^ n"
proof
  assume "uint_bits n v = uint_bits n w"
  then have "bits_uint (uint_bits n v) = bits_uint (uint_bits n w)" by simp
  then show "v mod 2 ^ n = w mod 2 ^ n" by (simp add: bits_uint_uint_bits)
next
  assume "v mod 2 ^ n = w mod 2 ^ n"
  then show "uint_bits n v = uint_bits n w"
  proof (induction n arbitrary: v w)
    case 0
    show ?case by simp
  next
    case (Suc n)
    from Suc.prems have e: "v mod (2 * 2 ^ n) = w mod (2 * 2 ^ n)" by simp
    then have "v mod (2 * 2 ^ n) mod 2 = w mod (2 * 2 ^ n) mod 2" by simp
    then have p: "odd v = odd w"
      by (simp add: mod_mult2_eq odd_iff_mod_2_eq_one)
    from e have "v mod (2 * 2 ^ n) div 2 = w mod (2 * 2 ^ n) div 2" by simp
    then have "v div 2 mod 2 ^ n = w div 2 mod 2 ^ n"
      by (simp add: mod_mult2_eq)
    from Suc.IH [OF this] p show ?case by simp
  qed
qed

lemma uint_bits_zero: "uint_bits n 0 = replicate n False"
  by (induction n) (auto simp: replicate_append_same)

lemma bits_uint_replicate_False: "bits_uint (replicate n False) = 0"
  using bits_uint_uint_bits [of n 0] by (simp add: uint_bits_zero)

lemma length_byte_bits: "length (byte_bits c) = 8"
  by (simp add: byte_bits_def length_uint_bits)

lemma length_buffer_bits: "length (buffer_bits buf) = 8 * length buf"
  by (induction buf) (auto simp: buffer_bits_def length_byte_bits)

lemma buffer_bits_append: "buffer_bits (xs @ ys) = buffer_bits xs @ buffer_bits ys"
  by (simp add: buffer_bits_def)

lemma length_uint_bytes: "length (uint_bytes n v) = n"
  by (induction n arbitrary: v) auto

lemma uint_bits_mod: "uint_bits n (v mod 2 ^ n) = uint_bits n v"
  by (simp add: uint_bits_eq_iff)

lemma uint_bits_byte_step:
  "uint_bits (8 * Suc n) v = uint_bits (8 * n) (v div 256) @ uint_bits 8 v"
proof -
  have "uint_bits (8 * n + 8) v = uint_bits (8 * n) (v div 256) @ uint_bits 8 v"
    using uint_bits_add [of "8 * n" 8 v] by simp
  moreover have "8 * Suc n = 8 * n + 8" by simp
  ultimately show ?thesis by (simp only:)
qed

lemma buffer_bits_snoc: "buffer_bits (buf @ [c]) = buffer_bits buf @ uint_bits 8 (of_char c)"
  by (simp add: buffer_bits_def byte_bits_def)

lemma buffer_bits_uint_bytes: "buffer_bits (uint_bytes n v) = uint_bits (8 * n) v"
proof (induction n arbitrary: v)
  case 0
  show ?case by (simp add: buffer_bits_def)
next
  case (Suc n)
  have "uint_bits 8 (v mod 256) = uint_bits 8 v"
    using uint_bits_mod [of 8 v] by simp
  then have "buffer_bits (uint_bytes (Suc n) v) = uint_bits (8 * n) (v div 256) @ uint_bits 8 v"
    using Suc [of "v div 256"] by (simp add: buffer_bits_snoc)
  then show ?case by (simp only: uint_bits_byte_step)
qed

lemma buffer_uint_snoc: "buffer_uint (buf @ [c]) = 256 * buffer_uint buf + of_char c"
  by (simp add: buffer_uint_def)

lemma of_char_less_256: "(of_char c :: nat) < 256"
proof -
  have "of_char (char_of (of_char c :: nat)) = (of_char c :: nat) mod 256"
    by (rule of_char_of)
  then have "(of_char c :: nat) = of_char c mod 256" by simp
  then show ?thesis by (metis mod_less_divisor zero_less_numeral)
qed

lemma buffer_uint_less: "buffer_uint buf < 256 ^ length buf"
proof (induction buf rule: rev_induct)
  case Nil
  show ?case by (simp add: buffer_uint_def)
next
  case (snoc c buf)
  have "of_char c < (256::nat)" by (rule of_char_less_256)
  then have "256 * buffer_uint buf + of_char c < 256 * (buffer_uint buf + 1)" by simp
  also from snoc have "buffer_uint buf + 1 \<le> 256 ^ length buf" by simp
  then have "256 * (buffer_uint buf + 1) \<le> 256 * 256 ^ length buf"
    by (rule mult_le_mono2)
  finally show ?case by (simp add: buffer_uint_snoc)
qed

lemma uint_bits_buffer_uint: "uint_bits (8 * length buf) (buffer_uint buf) = buffer_bits buf"
proof (induction buf rule: rev_induct)
  case Nil
  show ?case by (simp add: buffer_uint_def buffer_bits_def)
next
  case (snoc c buf)
  have lt: "of_char c < (256::nat)" by (rule of_char_less_256)
  let ?v = "256 * buffer_uint buf + of_char c"
  have "uint_bits (8 * Suc (length buf)) ?v = uint_bits (8 * length buf) (?v div 256) @ uint_bits 8 ?v"
    by (rule uint_bits_byte_step)
  moreover have "?v div 256 = buffer_uint buf"
    using lt by simp
  moreover have "uint_bits 8 ?v = uint_bits 8 (of_char c)"
    by (simp add: uint_bits_eq_iff)
  ultimately have "uint_bits (8 * Suc (length buf)) ?v = buffer_bits buf @ uint_bits 8 (of_char c)"
    using snoc by simp
  then show ?case
    by (simp add: buffer_uint_snoc buffer_bits_snoc)
qed

lemma buffer_uint_uint_bytes: "buffer_uint (uint_bytes n v) = v mod 256 ^ n"
proof (induction n arbitrary: v)
  case 0
  show ?case by (simp add: buffer_uint_def)
next
  case (Suc n)
  have "256 * (v div 256 mod 256 ^ n) + v mod 256 = v mod (256 * 256 ^ n)"
    by (simp add: mod_mult2_eq mult.commute)
  with Suc [of "v div 256"] show ?case
    by (simp add: buffer_uint_snoc)
qed

lemma unat_digest_less: "unat (w :: 256 word) < 2 ^ 256"
  using unsigned_less [of w, where ?'a = nat] by simp

lemma buffer_uint_digest_buffer: "buffer_uint (digest_buffer w) = unat w"
proof -
  have "(256::nat) ^ 32 = 2 ^ 256" by simp
  then show ?thesis
    using unat_digest_less [of w]
    by (simp only: digest_buffer_def buffer_uint_uint_bytes mod_less)
qed

lemma buffer_bits_digest_buffer: "buffer_bits (digest_buffer w) = uint_bits 256 (unat w)"
  by (simp add: digest_buffer_def buffer_bits_uint_bytes)

lemma uint_bits_unat_inj: "uint_bits 256 (unat (v :: 256 word)) = uint_bits 256 (unat w) \<longleftrightarrow> v = w"
proof -
  have "unat v mod 2 ^ 256 = unat v" "unat w mod 2 ^ 256 = unat w"
    using unat_digest_less [of v] unat_digest_less [of w] by (simp_all only: mod_less)
  then have "uint_bits 256 (unat v) = uint_bits 256 (unat w) \<longleftrightarrow> unat v = unat w"
    by (simp only: uint_bits_eq_iff)
  then show ?thesis using word_unat_eq_iff [of v w] by simp
qed

section \<open>Lemmas about the builder\<close>

lemma writeBits_eq:
  "writeBits bs b =
     (if length (b_bits b) + length bs \<le> 1024 then Inr (b\<lparr>b_bits := b_bits b @ bs\<rparr>)
      else Inl BitStringOverflow)"
  by (simp add: writeBits_def)

lemma sint_byte_mod: "nat (sint (w :: 8 word) mod 2 ^ 8) = unat w"
proof -
  have "sint w mod 2 ^ 8 = uint w"
    using uint_sint [of w] by (simp add: take_bit_eq_mod)
  then show ?thesis by simp
qed

lemma sint_byte_range: "\<not> (8 = (0::nat) \<or> sint (w :: 8 word) < - (2 ^ (8 - 1)) \<or> 2 ^ (8 - 1) \<le> sint w)"
  using sint_ge [of w] sint_lt [of w] by simp

lemma length_address_bits: "length (address_bits a) = 267"
  by (simp add: address_bits_def length_uint_bits)

lemma uint_bits_2_2: "uint_bits 2 2 = [True, False]"
  by (simp add: numeral_2_eq_2)

lemma uint_bits_1_0: "uint_bits (Suc 0) 0 = [False]"
  by simp

lemma storeAddress_eq: "storeAddress a b = writeBits (address_bits a) b"
  using sint_byte_range [of "workChain a"] sint_byte_mod [of "workChain a"]
  by (simp add: storeAddress_def storeUint_def storeInt_def storeBuffer_def writeBits_eq
      address_bits_def length_uint_bits buffer_bits_digest_buffer uint_bits_2_2
      uint_bits_1_0 del: uint_bits.simps)

lemma less_byte_length: "n < 256 ^ byte_length n"
proof (induction n rule: byte_length.induct)
  case (1 n)
  show ?case
  proof (cases "n = 0")
    case True
    then show ?thesis by simp
  next
    case False
    with 1 have "n div 256 < 256 ^ byte_length (n div 256)" by simp
    then have "n < 256 ^ byte_length (n div 256) * 256"
      by (simp add: div_less_iff_less_mult)
    moreover have "byte_length n = Suc (byte_length (n div 256))"
      using False by (subst byte_length.simps) simp
    ultimately show ?thesis by (simp only: power_Suc mult.commute)
  qed
qed


lemma byte_length_0: "byte_length 0 = 0"
  by (simp add: byte_length.simps)

lemma length_coins_bits: "length (coins_bits n) = 4 + 8 * byte_length n"
  by (simp add: coins_bits_def length_uint_bits)

lemma storeCoins_eq:
  "storeCoins amount b =
     (if 16 \<le> byte_length amount then Inl RangeError else writeBits (coins_bits amount) b)"
proof (cases "amount = 0")
  case True
  then show ?thesis
    by (simp add: storeCoins_def storeUint_def coins_bits_def byte_length_0)
next
  case False
  have "(2::nat) ^ (8 * byte_length amount) = (2 ^ 8) ^ byte_length amount"
    by (rule power_mult)
  then have "amount < 2 ^ (byte_length amount * 8)"
    using less_byte_length [of amount] by (simp add: mult.commute)
  with False show ?thesis
    by (simp add: storeCoins_def storeUint_def coins_bits_def writeBits_eq length_uint_bits
        mult.commute del: uint_bits.simps byte_length.simps)
qed

lemmas builder_defs = storeUint_def storeBuffer_def storeRef_def storeDict_def endCell_def
  beginCell_def writeBits_eq storeAddress_eq storeCoins_eq

lemmas builder_lens = length_uint_bits length_buffer_bits length_address_bits length_coins_bits

lemma deploySource_eq:
  "deploySource sha verifierId codeCellHash jsonURL =
     (if 2 ^ 256 \<le> buffer_uint (Buffer_from_base64 codeCellHash) then Inl RangeError
      else if 128 < length jsonURL then Inl BitStringOverflow
      else Inr (Cell (uint_bits 32 1002 @ uint_bits 64 0 @ uint_bits 256 (unat (sha verifierId)) @
                      uint_bits 256 (buffer_uint (Buffer_from_base64 codeCellHash)))
                  [Cell (buffer_bits jsonURL) []]))"
  by (simp add: deploySource_def toSha256Buffer_def builder_defs builder_lens
      buffer_bits_digest_buffer del: uint_bits.simps)

lemma changeVerifierRegistry_eq:
  "changeVerifierRegistry a = Inr (Cell (uint_bits 32 2003 @ uint_bits 64 0 @ address_bits a) [])"
  by (simp add: changeVerifierRegistry_def builder_defs builder_lens del: uint_bits.simps)

lemma changeAdmin_eq:
  "changeAdmin a = Inr (Cell (uint_bits 32 3004 @ uint_bits 64 0 @ address_bits a) [])"
  by (simp add: changeAdmin_def builder_defs builder_lens del: uint_bits.simps)

lemma setSourceItemCode_eq:
  "setSourceItemCode c = Inr (Cell (uint_bits 32 4005 @ uint_bits 64 0) [c])"
  by (simp add: setSourceItemCode_def builder_defs builder_lens del: uint_bits.simps)

lemma changeCode_eq:
  "changeCode c = Inr (Cell (uint_bits 32 5006 @ uint_bits 64 0) [c])"
  by (simp add: changeCode_def builder_defs builder_lens del: uint_bits.simps)

lemma setDeploymentCosts_eq:
  "setDeploymentCosts mn mx =
     (if 16 \<le> byte_length mn \<or> 16 \<le> byte_length mx then Inl RangeError
      else Inr (Cell (uint_bits 32 6007 @ uint_bits 64 0 @ coins_bits mn @ coins_bits mx) []))"
  by (simp add: setDeploymentCosts_def builder_defs builder_lens
      del: uint_bits.simps byte_length.simps)

lemma query_id_header: "query_id (Cell (uint_bits 32 t @ uint_bits 64 0 @ rest) rs) = Some 0"
  by (simp add: query_id_def length_uint_bits uint_bits_zero bits_uint_replicate_False
      del: uint_bits.simps)

lemma query_id_header': "query_id (Cell (uint_bits 32 t @ uint_bits 64 0) rs) = Some 0"
  using query_id_header [of t "[]" rs] by simp

lemma keyToAddress_data_eq:
  "keyToAddress_data sha v c r =
     Inr (Cell (uint_bits 256 (unat (sha (v @ '':'' @ c))) @ address_bits r) [])"
  by (simp add: keyToAddress_data_def prepareKey_def builder_defs builder_lens
      buffer_bits_digest_buffer del: uint_bits.simps)

lemma keyToAddress_si_eq:
  "keyToAddress_si sha code v c r =
     Inr (Cell [False, False, True, True, False]
            [code, Cell (uint_bits 256 (unat (sha (v @ '':'' @ c))) @ address_bits r) []])"
  by (simp add: keyToAddress_si_def keyToAddress_data_eq builder_defs builder_lens uint_bits_1_0
      uint_bits_zero numeral_2_eq_2 del: uint_bits.simps)

lemma op_tag_header: "t < 2 ^ 32 \<Longrightarrow> op_tag (Cell (uint_bits 32 t @ rest) rs) = Some t"
  by (simp add: op_tag_def length_uint_bits bits_uint_uint_bits del: uint_bits.simps)

text \<open>The operation tags of the six messages, as in the table of the wire format.\<close>

lemma encoder_tags:
  "deploySource sha v h u = Inr c \<Longrightarrow> op_tag c = Some 1002"
  "changeVerifierRegistry a = Inr c \<Longrightarrow> op_tag c = Some 2003"
  "changeAdmin a = Inr c \<Longrightarrow> op_tag c = Some 3004"
  "setSourceItemCode code = Inr c \<Longrightarrow> op_tag c = Some 4005"
  "changeCode code = Inr c \<Longrightarrow> op_tag c = Some 5006"
  "setDeploymentCosts mn mx = Inr c \<Longrightarrow> op_tag c = Some 6007"
  by (auto simp add: deploySource_eq changeVerifierRegistry_eq changeAdmin_eq setSourceItemCode_eq
      changeCode_eq setDeploymentCosts_eq op_tag_header split: if_splits simp del: uint_bits.simps)

lemma uint_bits_3_4: "uint_bits 3 4 = [True, False, False]"
  by (simp add: numeral_3_eq_3)

lemma readAddress_std:
  "readAddress (Cell ([True, False, False] @ uint_bits 8 0 @ uint_bits 256 (unat (h :: 256 word))) []) =
     Inr (Some \<lparr>workChain = 0, hash = h\<rparr>)"
proof -
  have "bits_uint [True, False] = 2" by (simp add: bits_uint_def)
  moreover have "bits_uint (uint_bits 256 (unat h)) = unat h"
    using unat_digest_less [of h] by (simp only: bits_uint_uint_bits mod_less)
  moreover have "bits_uint (uint_bits 8 0) = 0"
    by (simp only: bits_uint_uint_bits) simp
  ultimately show ?thesis
    by (simp add: readAddress_def Let_def length_uint_bits del: uint_bits.simps)
qed

lemma keyToAddress_eq:
  "keyToAddress sha chash code v c r =
     Inr (Some \<lparr>workChain = 0,
       hash = chash (Cell [False, False, True, True, False]
                [code, Cell (uint_bits 256 (unat (sha (v @ '':'' @ c))) @ address_bits r) []])\<rparr>)"
proof -
  have "storeInt 0 8 b = writeBits (uint_bits 8 0) b" for b
    by (simp add: storeInt_def del: uint_bits.simps)
  moreover have "storeUint (unat w) 256 b = writeBits (uint_bits 256 (unat w)) b"
    for w :: "256 word" and b
    by (simp only: storeUint_def unat_digest_less if_True)
  moreover have "storeUint 4 3 b = writeBits [True, False, False] b" for b
    by (simp add: storeUint_def uint_bits_3_4 del: uint_bits.simps)
  ultimately show ?thesis
    using readAddress_std
    by (simp add: keyToAddress_def keyToAddress_si_eq endCell_def
        beginCell_def writeBits_eq builder_lens buffer_uint_digest_buffer
        del: uint_bits.simps)
qed

lemma uint_bits_unat_byte_inj:
  "uint_bits 8 (unat (v :: 8 word)) = uint_bits 8 (unat w) \<longleftrightarrow> v = w"
proof -
  have "unat v < 2 ^ 8" "unat w < 2 ^ 8"
    using unsigned_less [of v, where ?'a = nat] unsigned_less [of w, where ?'a = nat] by simp_all
  then have "unat v mod 2 ^ 8 = unat v" "unat w mod 2 ^ 8 = unat w"
    by (simp_all only: mod_less)
  then have "uint_bits 8 (unat v) = uint_bits 8 (unat w) \<longleftrightarrow> unat v = unat w"
    by (simp only: uint_bits_eq_iff)
  then show ?thesis using word_unat_eq_iff [of v w] by simp
qed

lemma address_bits_inj: "address_bits a = address_bits b \<longleftrightarrow> a = b"
  by (cases a, cases b)
    (simp add: address_bits_def length_uint_bits uint_bits_unat_byte_inj uint_bits_unat_inj
      del: uint_bits.simps)

section \<open>The address derivation of the client\<close>

lemma digest_buffer_inj: "digest_buffer v = digest_buffer w \<longleftrightarrow> v = w"
proof
  assume "digest_buffer v = digest_buffer w"
  then have "buffer_uint (digest_buffer v) = buffer_uint (digest_buffer w)" by simp
  then have "unat v = unat w" by (simp add: buffer_uint_digest_buffer)
  then show "v = w" by (simp add: word_unat_eq_iff)
qed simp

lemma length_digest_buffer: "length (digest_buffer w) = 32"
  by (simp add: digest_buffer_def length_uint_bytes)

lemma joined_key_inj:
  assumes "CHR '':'' \<notin> set c" and "CHR '':'' \<notin> set c'"
  shows "v @ '':'' @ c = v' @ '':'' @ c' \<longleftrightarrow> v = v' \<and> c = c'"
proof
  assume eq: "v @ '':'' @ c = v' @ '':'' @ c'"
  have "takeWhile (\<lambda>x. x \<noteq> CHR '':'') (rev c @ CHR '':'' # rev v) = rev c"
    using assms(1) by (auto simp add: takeWhile_tail)
  moreover have "takeWhile (\<lambda>x. x \<noteq> CHR '':'') (rev c' @ CHR '':'' # rev v') = rev c'"
    using assms(2) by (auto simp add: takeWhile_tail)
  moreover from eq have "rev (v @ '':'' @ c) = rev (v' @ '':'' @ c')" by simp
  then have "rev c @ CHR '':'' # rev v = rev c' @ CHR '':'' # rev v'" by simp
  ultimately have "rev c = rev c'" by simp
  then have "c = c'" by simp
  with eq show "v = v' \<and> c = c'" by simp
qed simp

subsection \<open>The address of a child record\<close>

text \<open>
  Claim C1: \<open>keyToAddress\<close> is a function of the submitter identity, the content hash,
  the registry address and the child code template, so the same inputs give the same
  address; and changing the submitter identity or the content hash (one of them), the
  registry address or the code template changes the address, unless two different
  inputs of a digest have the same digest: the two joined keys under SHA-256, or the
  two initial program images under the cell hash.
\<close>

theorem keyToAddress_sensitive:
  assumes one: "verifierId = verifierId' \<or> codeCell = codeCell'"
  shows "keyToAddress sha chash code verifierId codeCell registryAddress =
         keyToAddress sha chash code' verifierId' codeCell' registryAddress' \<longleftrightarrow>
           (code = code' \<and> verifierId = verifierId' \<and> codeCell = codeCell' \<and>
            registryAddress = registryAddress') \<or>
           (code = code' \<and> registryAddress = registryAddress' \<and>
            collision sha (verifierId @ '':'' @ codeCell) (verifierId' @ '':'' @ codeCell')) \<or>
           (\<exists>si si'. keyToAddress_si sha code verifierId codeCell registryAddress = Inr si \<and>
                  keyToAddress_si sha code' verifierId' codeCell' registryAddress' = Inr si' \<and>
                  collision chash si si')"
  using one
  by (auto simp add: keyToAddress_eq keyToAddress_si_eq collision_def length_uint_bits
      uint_bits_unat_inj address_bits_inj simp del: uint_bits.simps)

theorem keyToAddress_sensitive_witness:
  "(''my verifier'' = ''my verifier1'' \<or>
      ''E/XXoxbG124QU+iKxZtd5loHKjiEUTcdxcW+y7oT9Q4='' =
      ''E/XXoxbG124QU+iKxZtd5loHKjiEUTcdxcW+y7oT9Q4='') \<and>
   keyToAddress null_digest null_cell_digest (Cell [True] []) ''my verifier''
       ''E/XXoxbG124QU+iKxZtd5loHKjiEUTcdxcW+y7oT9Q4='' \<lparr>workChain = 0, hash = 1\<rparr> =
     keyToAddress null_digest null_cell_digest (Cell [True] []) ''my verifier1''
       ''E/XXoxbG124QU+iKxZtd5loHKjiEUTcdxcW+y7oT9Q4='' \<lparr>workChain = 0, hash = 1\<rparr>"
proof -
  have h: "''my verifier'' = ''my verifier1'' \<or>
      ''E/XXoxbG124QU+iKxZtd5loHKjiEUTcdxcW+y7oT9Q4='' =
      ''E/XXoxbG124QU+iKxZtd5loHKjiEUTcdxcW+y7oT9Q4=''"
    by simp
  have c: "collision null_digest
      (''my verifier'' @ '':'' @ ''E/XXoxbG124QU+iKxZtd5loHKjiEUTcdxcW+y7oT9Q4='')
      (''my verifier1'' @ '':'' @ ''E/XXoxbG124QU+iKxZtd5loHKjiEUTcdxcW+y7oT9Q4='')"
    by (simp add: collision_def null_digest_def)
  show ?thesis
    using h c
      keyToAddress_sensitive [OF h, of null_digest null_cell_digest "Cell [True] []"
        "\<lparr>workChain = 0, hash = 1\<rparr>" "Cell [True] []" "\<lparr>workChain = 0, hash = 1\<rparr>"]
    by blast
qed

text \<open>
  Claim C2: \<open>keyToAddress\<close> should build the child's initial storage as the tuple
  (verifierKey, contentKey, registryAddress, empty-content-marker).  It does not: the
  storage it builds is the single 256-bit digest of \<open>verifierId:codeCell\<close> followed by
  the registry address, 523 bits, which is the storage of the spec's tuple for no
  choice of the two keys and the address.  The rest is as claimed: the storage is paired
  with the code template in the initial program image, and the address is the cell
  hash of that image behind the standard-address prefix and workchain 0.
\<close>

theorem keyToAddress_storage_single_key:
  "keyToAddress_data sha verifierId codeCell registryAddress =
     Inr (Cell (buffer_bits (prepareKey sha verifierId codeCell) @ address_bits registryAddress) []) \<and>
   keyToAddress_data sha verifierId codeCell registryAddress \<noteq> Inr (spec_child_storage vk ck a) \<and>
   keyToAddress_si sha code verifierId codeCell registryAddress =
     Inr (Cell [False, False, True, True, False]
       [code, Cell (buffer_bits (prepareKey sha verifierId codeCell) @ address_bits registryAddress) []]) \<and>
   keyToAddress sha chash code verifierId codeCell registryAddress =
     Inr (Some \<lparr>workChain = 0, hash = chash (Cell [False, False, True, True, False]
       [code, Cell (buffer_bits (prepareKey sha verifierId codeCell) @ address_bits registryAddress) []])\<rparr>)"
proof -
  have "length (uint_bits 256 (unat (sha (verifierId @ '':'' @ codeCell))) @ address_bits registryAddress)
        \<noteq> length (uint_bits 256 (unat vk) @ uint_bits 256 (unat ck) @ address_bits a)"
    by (simp add: length_uint_bits length_address_bits del: uint_bits.simps)
  then have "uint_bits 256 (unat (sha (verifierId @ '':'' @ codeCell))) @ address_bits registryAddress
        \<noteq> uint_bits 256 (unat vk) @ uint_bits 256 (unat ck) @ address_bits a"
    by metis
  then show ?thesis
    by (simp add: keyToAddress_data_eq keyToAddress_si_eq keyToAddress_eq spec_child_storage_def
        prepareKey_def buffer_bits_digest_buffer del: uint_bits.simps)
qed

subsection \<open>The joined key\<close>

text \<open>
  Claim C4, as amended: the key computed by \<open>prepareKey\<close> is the 32-byte digest of the
  submitter identity, a colon and the content hash joined; and for content hashes that
  hold no colon (base64 text never does), two keys are equal exactly when the two pairs
  (submitterIdentity, contentHash) are equal or the two joined texts are different
  inputs with the same digest.
\<close>

theorem prepareKey_equal_iff:
  "prepareKey sha verifierId codeCell = digest_buffer (sha (verifierId @ '':'' @ codeCell)) \<and>
   length (prepareKey sha verifierId codeCell) = 32 \<and>
   (CHR '':'' \<notin> set codeCell \<and> CHR '':'' \<notin> set codeCell' \<longrightarrow>
      (prepareKey sha verifierId codeCell = prepareKey sha verifierId' codeCell' \<longleftrightarrow>
         (verifierId = verifierId' \<and> codeCell = codeCell') \<or>
         collision sha (verifierId @ '':'' @ codeCell) (verifierId' @ '':'' @ codeCell')))"
  using joined_key_inj [of codeCell codeCell' verifierId verifierId']
  by (auto simp add: prepareKey_def length_digest_buffer digest_buffer_inj collision_def)

theorem prepareKey_equal_iff_witness:
  "CHR '':'' \<notin> set ''E/XXoxbG124QU+iKxZtd5loHKjiEUTcdxcW+y7oT9Q4='' \<and>
   CHR '':'' \<notin> set ''E/XXoxbG124QU+iKxZtd5loHKjiEUTcdxcW+y7oT9ZZ='' \<and>
   (prepareKey null_digest ''my verifier'' ''E/XXoxbG124QU+iKxZtd5loHKjiEUTcdxcW+y7oT9Q4='' =
    prepareKey null_digest ''my verifier'' ''E/XXoxbG124QU+iKxZtd5loHKjiEUTcdxcW+y7oT9ZZ='' \<longleftrightarrow>
      (''my verifier'' = ''my verifier'' \<and>
       ''E/XXoxbG124QU+iKxZtd5loHKjiEUTcdxcW+y7oT9Q4='' =
       ''E/XXoxbG124QU+iKxZtd5loHKjiEUTcdxcW+y7oT9ZZ='') \<or>
      collision null_digest
        (''my verifier'' @ '':'' @ ''E/XXoxbG124QU+iKxZtd5loHKjiEUTcdxcW+y7oT9Q4='')
        (''my verifier'' @ '':'' @ ''E/XXoxbG124QU+iKxZtd5loHKjiEUTcdxcW+y7oT9ZZ=''))"
proof -
  have h: "CHR '':'' \<notin> set ''E/XXoxbG124QU+iKxZtd5loHKjiEUTcdxcW+y7oT9Q4='' \<and>
      CHR '':'' \<notin> set ''E/XXoxbG124QU+iKxZtd5loHKjiEUTcdxcW+y7oT9ZZ=''"
    by simp
  from prepareKey_equal_iff [THEN conjunct2, THEN conjunct2, rule_format, OF h] h
  show ?thesis by blast
qed

text \<open>
  The claim as stated, for every content hash, fails where the content hash holds a
  colon: the pairs (\<open>a:b\<close>, \<open>c\<close>) and (\<open>a\<close>, \<open>b:c\<close>) are different and join to
  the same text, so they have the same key under every digest, with no collision.
\<close>

theorem prepareKey_colon_counterexample:
  "\<not> (\<forall>sha verifierId codeCell verifierId' codeCell'.
        prepareKey sha verifierId codeCell = prepareKey sha verifierId' codeCell' \<longleftrightarrow>
          (verifierId = verifierId' \<and> codeCell = codeCell') \<or>
          collision sha (verifierId @ '':'' @ codeCell) (verifierId' @ '':'' @ codeCell'))"
proof
  assume a: "\<forall>sha verifierId codeCell verifierId' codeCell'.
        prepareKey sha verifierId codeCell = prepareKey sha verifierId' codeCell' \<longleftrightarrow>
          (verifierId = verifierId' \<and> codeCell = codeCell') \<or>
          collision sha (verifierId @ '':'' @ codeCell) (verifierId' @ '':'' @ codeCell')"
  have "prepareKey null_digest ''a:b'' ''c'' = prepareKey null_digest ''a'' ''b:c''"
    by (simp add: prepareKey_def)
  with a have "(''a:b'' = ''a'' \<and> ''c'' = ''b:c'') \<or>
      collision null_digest (''a:b'' @ '':'' @ ''c'') (''a'' @ '':'' @ ''b:c'')"
    by blast
  then show False by (simp add: collision_def)
qed

section \<open>The deploy message of the client\<close>

lemma length_bits_bytes: "length (bits_bytes bs) = length bs div 8"
  by (induction bs rule: bits_bytes.induct) simp_all

lemma utf16_low_bytes_ascii:
  "\<forall>c\<in>set s. (of_char c :: nat) < 192 \<Longrightarrow> utf16_low_bytes s = s"
  by (induction s) simp_all

lemma length_Buffer_from_base64:
  "length (Buffer_from_base64 s) =
     6 * length (List.map_filter unbase64
           (takeWhile (\<lambda>c. c \<noteq> CHR ''='') (utf16_low_bytes s))) div 8"
proof -
  have "length (concat (map (uint_bits 6) xs)) = 6 * length xs" for xs
    by (induction xs) (simp_all add: length_uint_bits del: uint_bits.simps)
  then show ?thesis
    by (simp add: Buffer_from_base64_def length_bits_bytes)
qed

lemma test_hash_ascii:
  "utf16_low_bytes ''E/XXoxbG124QU+iKxZtd5loHKjiEUTcdxcW+y7oT9Q4='' =
     ''E/XXoxbG124QU+iKxZtd5loHKjiEUTcdxcW+y7oT9Q4=''"
  by (rule utf16_low_bytes_ascii) simp

lemma test_hash_sextets:
  "length (List.map_filter unbase64
     (takeWhile (\<lambda>c. c \<noteq> CHR ''='')
        (utf16_low_bytes ''E/XXoxbG124QU+iKxZtd5loHKjiEUTcdxcW+y7oT9Q4=''))) = 43"
  unfolding test_hash_ascii by (simp add: List.map_filter_def unbase64_def)

lemma test_hash_length:
  "length (Buffer_from_base64 ''E/XXoxbG124QU+iKxZtd5loHKjiEUTcdxcW+y7oT9Q4='') = 32"
  unfolding length_Buffer_from_base64 test_hash_sextets by simp

lemma buffer_uint_fits:
  assumes "length buf \<le> 32"
  shows "buffer_uint buf < 2 ^ 256"
proof -
  have "buffer_uint buf < 256 ^ length buf" by (rule buffer_uint_less)
  also have "(256::nat) ^ length buf \<le> 256 ^ 32"
    using assms by (rule power_increasing) simp
  also have "(256::nat) ^ 32 = 2 ^ 256" by simp
  finally show ?thesis .
qed

lemma uint_bits_buffer_uint_32:
  assumes "length buf = 32"
  shows "uint_bits 256 (buffer_uint buf) = buffer_bits buf"
  using uint_bits_buffer_uint [of buf] assms by simp

lemma wf33: "wellformed_base64 (replicate 44 (CHR ''/''))"
  by (simp add: wellformed_base64_def std_base64_char_def unbase64_def list_all_length)

lemma ff33: "Buffer_from_base64 (replicate 44 (CHR ''/'')) = replicate 33 (CHR 0xFF)"
  by code_simp

lemma replicate_33:
  "replicate 33 x =
     [x,x,x,x,x,x,x,x,x,x,x,x,x,x,x,x,x,x,x,x,x,x,x,x,x,x,x,x,x,x,x,x,x]"
  by (simp add: eval_nat_numeral)

lemma ff33_too_big: "2 ^ 256 \<le> buffer_uint (Buffer_from_base64 (replicate 44 (CHR ''/'')))"
  unfolding ff33 replicate_33 by (simp add: buffer_uint_def)

lemma bang_decodes_empty: "Buffer_from_base64 ''!'' = []"
  by (simp add: Buffer_from_base64_def List.map_filter_def unbase64_def)

text \<open>
  A text with a character above U+00FF: the two bytes \<open>C5 91\<close> are U+0151, whose code
  unit has the low byte of \<open>Q\<close>.  Before the hash of the tests they make 45 characters
  of the alphabet, 33 bytes, too many for the 256-bit field.
\<close>

lemma low_byte_example:
  "Buffer_from_base64 (CHR 0xC5 # CHR 0x91 # ''E/XXoxbG124QU+iKxZtd5loHKjiEUTcdxcW+y7oT9Q4='') =
     map char_of [64, 79, 215, 94, 140, 91, 27, 93, 184, 65, 79, 162, 43, 22, 109, 119, 153,
       104, 28, 168, 226, 17, 68, 220, 119, 23, 22, 251, 46, 232, 79, 212, 56 :: nat]"
  by code_simp

lemma low_byte_example_too_big:
  "deploySource sha verifierId
     (CHR 0xC5 # CHR 0x91 # ''E/XXoxbG124QU+iKxZtd5loHKjiEUTcdxcW+y7oT9Q4='') jsonURL =
     Inl RangeError"
proof -
  have "2 ^ 256 \<le> buffer_uint (Buffer_from_base64
      (CHR 0xC5 # CHR 0x91 # ''E/XXoxbG124QU+iKxZtd5loHKjiEUTcdxcW+y7oT9Q4=''))"
    unfolding low_byte_example by (simp add: buffer_uint_def)
  then show ?thesis unfolding deploySource_eq by simp
qed

subsection \<open>The query identifier of every message\<close>

lemma query_id_bits:
  "take 64 (drop 32 (uint_bits 32 t @ uint_bits 64 0 @ rest)) = replicate 64 False"
  by (simp add: length_uint_bits uint_bits_zero del: uint_bits.simps)

lemma query_id_bits': "take 64 (drop 32 (uint_bits 32 t @ uint_bits 64 0)) = replicate 64 False"
  using query_id_bits [of t "[]"] by simp

text \<open>
  Claim C10: each of the six message encoders (\<open>deploySource\<close>,
  \<open>changeVerifierRegistry\<close>, \<open>changeAdmin\<close>, \<open>setSourceItemCode\<close>, \<open>changeCode\<close>,
  \<open>setDeploymentCosts\<close>) writes the 64-bit query identifier as the constant 0, whatever
  its arguments: the cell it returns holds the field, the 64 bits after the tag, and
  they are all zero, so a caller has no way to supply another identifier.  Four
  encoders return a cell for every input; \<open>deploySource\<close> and \<open>setDeploymentCosts\<close>
  return one whenever their numbers fit their fields and the content pointer fits its
  cell.
\<close>

theorem encoders_query_id_zero:
  "(\<exists>c. changeVerifierRegistry newVerifierRegistry = Inr c \<and> query_id c = Some 0 \<and>
        take 64 (drop 32 (cell_bits c)) = replicate 64 False) \<and>
   (\<exists>c. changeAdmin newAdmin = Inr c \<and> query_id c = Some 0 \<and>
        take 64 (drop 32 (cell_bits c)) = replicate 64 False) \<and>
   (\<exists>c. setSourceItemCode newCode = Inr c \<and> query_id c = Some 0 \<and>
        take 64 (drop 32 (cell_bits c)) = replicate 64 False) \<and>
   (\<exists>c. changeCode newCode' = Inr c \<and> query_id c = Some 0 \<and>
        take 64 (drop 32 (cell_bits c)) = replicate 64 False) \<and>
   (deploySource sha verifierId codeCellHash jsonURL = Inr c1 \<longrightarrow>
      query_id c1 = Some 0 \<and> take 64 (drop 32 (cell_bits c1)) = replicate 64 False) \<and>
   (buffer_uint (Buffer_from_base64 codeCellHash) < 2 ^ 256 \<and> length jsonURL \<le> 128 \<longrightarrow>
      (\<exists>c. deploySource sha verifierId codeCellHash jsonURL = Inr c)) \<and>
   (setDeploymentCosts minTon maxTon = Inr c6 \<longrightarrow>
      query_id c6 = Some 0 \<and> take 64 (drop 32 (cell_bits c6)) = replicate 64 False) \<and>
   (byte_length minTon < 16 \<and> byte_length maxTon < 16 \<longrightarrow>
      (\<exists>c. setDeploymentCosts minTon maxTon = Inr c))"
proof (intro conjI impI)
  show "\<exists>c. changeVerifierRegistry newVerifierRegistry = Inr c \<and> query_id c = Some 0 \<and>
        take 64 (drop 32 (cell_bits c)) = replicate 64 False"
    by (rule exI [of _ "Cell (uint_bits 32 2003 @ uint_bits 64 0 @ address_bits newVerifierRegistry) []"])
      (simp only: changeVerifierRegistry_eq query_id_header query_id_bits Cell.sel simp_thms)
  show "\<exists>c. changeAdmin newAdmin = Inr c \<and> query_id c = Some 0 \<and>
        take 64 (drop 32 (cell_bits c)) = replicate 64 False"
    by (rule exI [of _ "Cell (uint_bits 32 3004 @ uint_bits 64 0 @ address_bits newAdmin) []"])
      (simp only: changeAdmin_eq query_id_header query_id_bits Cell.sel simp_thms)
  show "\<exists>c. setSourceItemCode newCode = Inr c \<and> query_id c = Some 0 \<and>
        take 64 (drop 32 (cell_bits c)) = replicate 64 False"
    by (rule exI [of _ "Cell (uint_bits 32 4005 @ uint_bits 64 0) [newCode]"])
      (simp only: setSourceItemCode_eq query_id_header' query_id_bits' Cell.sel simp_thms)
  show "\<exists>c. changeCode newCode' = Inr c \<and> query_id c = Some 0 \<and>
        take 64 (drop 32 (cell_bits c)) = replicate 64 False"
    by (rule exI [of _ "Cell (uint_bits 32 5006 @ uint_bits 64 0) [newCode']"])
      (simp only: changeCode_eq query_id_header' query_id_bits' Cell.sel simp_thms)
next
  assume "deploySource sha verifierId codeCellHash jsonURL = Inr c1"
  then have "c1 = Cell (uint_bits 32 1002 @ uint_bits 64 0 @
      uint_bits 256 (unat (sha verifierId)) @
      uint_bits 256 (buffer_uint (Buffer_from_base64 codeCellHash)))
      [Cell (buffer_bits jsonURL) []]"
    by (auto simp add: deploySource_eq split: if_splits simp del: uint_bits.simps)
  then show "query_id c1 = Some 0" "take 64 (drop 32 (cell_bits c1)) = replicate 64 False"
    by (simp_all only: query_id_header query_id_bits Cell.sel)
next
  assume "buffer_uint (Buffer_from_base64 codeCellHash) < 2 ^ 256 \<and> length jsonURL \<le> 128"
  then show "\<exists>c. deploySource sha verifierId codeCellHash jsonURL = Inr c"
    by (simp add: deploySource_eq del: uint_bits.simps)
next
  assume "setDeploymentCosts minTon maxTon = Inr c6"
  then have "c6 = Cell (uint_bits 32 6007 @ uint_bits 64 0 @ coins_bits minTon @ coins_bits maxTon) []"
    by (auto simp add: setDeploymentCosts_eq split: if_splits simp del: uint_bits.simps)
  then show "query_id c6 = Some 0" "take 64 (drop 32 (cell_bits c6)) = replicate 64 False"
    by (simp_all only: query_id_header query_id_bits Cell.sel)
next
  assume "byte_length minTon < 16 \<and> byte_length maxTon < 16"
  then show "\<exists>c. setDeploymentCosts minTon maxTon = Inr c"
    by (simp add: setDeploymentCosts_eq del: uint_bits.simps)
qed

theorem encoders_query_id_zero_witness:
  "buffer_uint (Buffer_from_base64 ''E/XXoxbG124QU+iKxZtd5loHKjiEUTcdxcW+y7oT9Q4='') < 2 ^ 256 \<and>
   length ''https://myjson.com/sources.json'' \<le> 128 \<and>
   byte_length 10000000000 < 16 \<and> byte_length 20000000000 < 16 \<and>
   (\<exists>c. deploySource null_digest ''my verifier'' ''E/XXoxbG124QU+iKxZtd5loHKjiEUTcdxcW+y7oT9Q4=''
          ''https://myjson.com/sources.json'' = Inr c \<and>
        query_id c = Some 0 \<and> take 64 (drop 32 (cell_bits c)) = replicate 64 False) \<and>
   (\<exists>c. setDeploymentCosts 10000000000 20000000000 = Inr c \<and>
        query_id c = Some 0 \<and> take 64 (drop 32 (cell_bits c)) = replicate 64 False)"
proof -
  have h: "buffer_uint (Buffer_from_base64 ''E/XXoxbG124QU+iKxZtd5loHKjiEUTcdxcW+y7oT9Q4='') < 2 ^ 256 \<and>
      length ''https://myjson.com/sources.json'' \<le> 128"
    using buffer_uint_fits [of "Buffer_from_base64 ''E/XXoxbG124QU+iKxZtd5loHKjiEUTcdxcW+y7oT9Q4=''"]
      test_hash_length
    by simp
  have bl: "byte_length 10000000000 < 16 \<and> byte_length 20000000000 < 16"
    by (simp add: byte_length.simps)
  note t = encoders_query_id_zero [of _ _ _ _ null_digest "''my verifier''"
      "''E/XXoxbG124QU+iKxZtd5loHKjiEUTcdxcW+y7oT9Q4=''" "''https://myjson.com/sources.json''"
      _ 10000000000 20000000000]
  from t h obtain c where c: "deploySource null_digest ''my verifier''
      ''E/XXoxbG124QU+iKxZtd5loHKjiEUTcdxcW+y7oT9Q4='' ''https://myjson.com/sources.json'' = Inr c"
    by blast
  from t bl obtain c' where c': "setDeploymentCosts 10000000000 20000000000 = Inr c'"
    by blast
  from encoders_query_id_zero [of _ _ _ _ null_digest "''my verifier''"
      "''E/XXoxbG124QU+iKxZtd5loHKjiEUTcdxcW+y7oT9Q4=''" "''https://myjson.com/sources.json''"
      c 10000000000 20000000000 c'] c c'
  have "query_id c = Some 0 \<and> take 64 (drop 32 (cell_bits c)) = replicate 64 False"
    "query_id c' = Some 0 \<and> take 64 (drop 32 (cell_bits c')) = replicate 64 False"
    by blast+
  with h bl c c' show ?thesis by blast
qed

subsection \<open>The deploy message\<close>

text \<open>
  Claim C3, as amended: for every \<open>verifierId\<close>, \<open>deploySource\<close> produces a cell
  holding, in order, the 32-bit tag 1002, the 64-bit query identifier 0, the 256-bit
  SHA-256 digest of \<open>verifierId\<close>, the decoded bytes of \<open>codeCellHash\<close> as a second
  256-bit field, and one reference to a cell holding the bytes of \<open>jsonURL\<close>, exactly
  when \<open>codeCellHash\<close> decodes from base64 to 32 bytes and \<open>jsonURL\<close> has at most
  128 bytes.
\<close>

theorem deploySource_message:
  "deploySource sha verifierId codeCellHash jsonURL =
     Inr (Cell (uint_bits 32 1002 @ uint_bits 64 0 @
                buffer_bits (toSha256Buffer sha verifierId) @
                buffer_bits (Buffer_from_base64 codeCellHash))
            [Cell (buffer_bits jsonURL) []]) \<longleftrightarrow>
   length (Buffer_from_base64 codeCellHash) = 32 \<and> length jsonURL \<le> 128"
proof
  assume a: "deploySource sha verifierId codeCellHash jsonURL =
     Inr (Cell (uint_bits 32 1002 @ uint_bits 64 0 @
                buffer_bits (toSha256Buffer sha verifierId) @
                buffer_bits (Buffer_from_base64 codeCellHash))
            [Cell (buffer_bits jsonURL) []])"
  then have u: "length jsonURL \<le> 128"
    and e: "uint_bits 256 (buffer_uint (Buffer_from_base64 codeCellHash)) =
            buffer_bits (Buffer_from_base64 codeCellHash)"
    by (auto simp add: deploySource_eq toSha256Buffer_def buffer_bits_digest_buffer
        length_uint_bits split: if_splits simp del: uint_bits.simps)
  from e have "length (uint_bits 256 (buffer_uint (Buffer_from_base64 codeCellHash))) =
      length (buffer_bits (Buffer_from_base64 codeCellHash))"
    by simp
  then have "length (Buffer_from_base64 codeCellHash) = 32"
    by (simp add: length_uint_bits length_buffer_bits)
  with u show "length (Buffer_from_base64 codeCellHash) = 32 \<and> length jsonURL \<le> 128"
    by simp
next
  assume "length (Buffer_from_base64 codeCellHash) = 32 \<and> length jsonURL \<le> 128"
  then show "deploySource sha verifierId codeCellHash jsonURL =
     Inr (Cell (uint_bits 32 1002 @ uint_bits 64 0 @
                buffer_bits (toSha256Buffer sha verifierId) @
                buffer_bits (Buffer_from_base64 codeCellHash))
            [Cell (buffer_bits jsonURL) []])"
    using buffer_uint_fits [of "Buffer_from_base64 codeCellHash"]
      uint_bits_buffer_uint_32 [of "Buffer_from_base64 codeCellHash"]
    by (simp add: deploySource_eq toSha256Buffer_def buffer_bits_digest_buffer
        del: uint_bits.simps)
qed

theorem deploySource_message_witness:
  "length (Buffer_from_base64 ''E/XXoxbG124QU+iKxZtd5loHKjiEUTcdxcW+y7oT9Q4='') = 32 \<and>
   length (replicate 128 (CHR ''a'')) \<le> 128 \<and>
   deploySource null_digest ''my verifier'' ''E/XXoxbG124QU+iKxZtd5loHKjiEUTcdxcW+y7oT9Q4=''
       (replicate 128 (CHR ''a'')) =
     Inr (Cell (uint_bits 32 1002 @ uint_bits 64 0 @
                buffer_bits (toSha256Buffer null_digest ''my verifier'') @
                buffer_bits (Buffer_from_base64 ''E/XXoxbG124QU+iKxZtd5loHKjiEUTcdxcW+y7oT9Q4=''))
            [Cell (buffer_bits (replicate 128 (CHR ''a''))) []])"
proof -
  have h: "length (Buffer_from_base64 ''E/XXoxbG124QU+iKxZtd5loHKjiEUTcdxcW+y7oT9Q4='') = 32 \<and>
      length (replicate 128 (CHR ''a'')) \<le> 128"
    using test_hash_length by simp
  from deploySource_message [THEN iffD2, OF h] h show ?thesis by blast
qed

text \<open>
  The claim as stated, for every \<open>jsonURL\<close>, fails for one of 129 bytes: the builder
  raises at the last of its 1032 bits.
\<close>

theorem deploySource_long_url_counterexample:
  "deploySource null_digest ''my verifier'' ''E/XXoxbG124QU+iKxZtd5loHKjiEUTcdxcW+y7oT9Q4=''
       (replicate 129 (CHR ''a'')) = Inl BitStringOverflow"
  using buffer_uint_fits [of "Buffer_from_base64 ''E/XXoxbG124QU+iKxZtd5loHKjiEUTcdxcW+y7oT9Q4=''"]
      test_hash_length
  unfolding deploySource_eq by simp

subsection \<open>The failure modes of the deploy message\<close>

text \<open>
  Claim C9, as amended: \<open>deploySource\<close> fails in exactly two ways, neither of them an
  encoding error: with the builder's range error when the decoded \<open>codeCellHash\<close>, read
  as a big-endian number, does not fit 256 bits, and otherwise with the builder's
  overflow when \<open>jsonURL\<close> is longer than 128 bytes.  The base64 decoding itself never
  fails, and a \<open>codeCellHash\<close> that decodes to at most 32 bytes always fits.
\<close>

theorem deploySource_failure_modes:
  "(deploySource sha verifierId codeCellHash jsonURL = Inl e \<longleftrightarrow>
      (e = RangeError \<and> 2 ^ 256 \<le> buffer_uint (Buffer_from_base64 codeCellHash)) \<or>
      (e = BitStringOverflow \<and> buffer_uint (Buffer_from_base64 codeCellHash) < 2 ^ 256 \<and>
       128 < length jsonURL)) \<and>
   (length (Buffer_from_base64 codeCellHash) \<le> 32 \<longrightarrow>
      buffer_uint (Buffer_from_base64 codeCellHash) < 2 ^ 256)"
  using buffer_uint_fits [of "Buffer_from_base64 codeCellHash"]
  by (auto simp add: deploySource_eq simp del: uint_bits.simps)

theorem deploySource_failure_modes_witness:
  "length (Buffer_from_base64 ''E/XXoxbG124QU+iKxZtd5loHKjiEUTcdxcW+y7oT9Q4='') \<le> 32 \<and>
   buffer_uint (Buffer_from_base64 ''E/XXoxbG124QU+iKxZtd5loHKjiEUTcdxcW+y7oT9Q4='') < 2 ^ 256"
proof -
  have l: "length (Buffer_from_base64 ''E/XXoxbG124QU+iKxZtd5loHKjiEUTcdxcW+y7oT9Q4='') \<le> 32"
    unfolding test_hash_length by simp
  show ?thesis
    by (intro conjI l deploySource_failure_modes [THEN conjunct2, rule_format, OF l])
qed

text \<open>
  The claim as stated fails in both directions: 44 characters \<open>/\<close> are well-formed
  base64 (33 bytes \<open>0xFF\<close>) and make \<open>deploySource\<close> fail, with a range error; the
  malformed text \<open>!\<close> is accepted and decodes to no bytes.
\<close>

theorem deploySource_base64_counterexample:
  "wellformed_base64 (replicate 44 (CHR ''/'')) \<and>
   deploySource null_digest ''my verifier'' (replicate 44 (CHR ''/''))
       ''https://myjson.com/sources.json'' = Inl RangeError \<and>
   \<not> wellformed_base64 ''!'' \<and>
   \<not> isl (deploySource null_digest ''my verifier'' ''!'' ''https://myjson.com/sources.json'')"
proof -
  have "\<not> wellformed_base64 ''!''"
    by (simp add: wellformed_base64_def)
  moreover have "deploySource null_digest ''my verifier'' (replicate 44 (CHR ''/''))
       ''https://myjson.com/sources.json'' = Inl RangeError"
    using ff33_too_big unfolding deploySource_eq by simp
  moreover have "\<not> isl (deploySource null_digest ''my verifier'' ''!'' ''https://myjson.com/sources.json'')"
    unfolding deploySource_eq bang_decodes_empty by (simp add: buffer_uint_def)
  ultimately show ?thesis using wf33 by simp
qed

section \<open>The message frames\<close>

lemma uint_bits_8_odd:
  "uint_bits 8 n = [odd (n div 128), odd (n div 64), odd (n div 32), odd (n div 16),
                    odd (n div 8), odd (n div 4), odd (n div 2), odd n]"
proof -
  have e: "(8::nat) = Suc (Suc (Suc (Suc (Suc (Suc (Suc (Suc 0)))))))" by simp
  show ?thesis unfolding e by (simp add: div_mult2_eq [symmetric])
qed

lemma uint_bits_8: 
  "uint_bits 8 n = [bit n 7, bit n 6, bit n 5, bit n 4, bit n 3, bit n 2, bit n 1, bit n 0]"
  unfolding uint_bits_8_odd by (simp add: bit_iff_odd)

lemma bits_bytes_byte: "bits_bytes (byte_bits c @ rest) = c # bits_bytes rest"
proof -
  have "Char (bit (of_char c :: nat) 0) (bit (of_char c :: nat) 1) (bit (of_char c :: nat) 2)
          (bit (of_char c :: nat) 3) (bit (of_char c :: nat) 4) (bit (of_char c :: nat) 5)
          (bit (of_char c :: nat) 6) (bit (of_char c :: nat) 7) = char_of (of_char c :: nat)"
    by (simp only: char_of_def)
  then show ?thesis
    by (simp add: byte_bits_def uint_bits_8 del: uint_bits.simps)
qed

lemma bits_bytes_buffer_bits: "bits_bytes (buffer_bits buf) = buf"
proof (induction buf)
  case Nil
  show ?case by (simp add: buffer_bits_def)
next
  case (Cons c buf)
  have "buffer_bits (c # buf) = byte_bits c @ buffer_bits buf"
    by (simp add: buffer_bits_def)
  with Cons show ?case by (simp add: bits_bytes_byte)
qed

lemma bits_uint_digest: "(of_nat (bits_uint (uint_bits 256 (unat (w :: 256 word)))) :: 256 word) = w"
proof -
  have "bits_uint (uint_bits 256 (unat w)) = unat w"
    using unat_digest_less [of w] by (simp only: bits_uint_uint_bits mod_less)
  then show ?thesis by simp
qed

lemma bits_uint_workchain: "(of_nat (bits_uint (uint_bits 8 (unat (w :: 8 word)))) :: 8 word) = w"
proof -
  have "unat w < 2 ^ 8"
    using unsigned_less [of w, where ?'a = nat] by simp
  then have "bits_uint (uint_bits 8 (unat w)) = unat w"
    by (simp only: bits_uint_uint_bits mod_less)
  then show ?thesis by simp
qed

lemma load_address_address_bits: "load_address (address_bits a @ rest) = Some a"
proof -
  have "take 8 (uint_bits 8 (unat (workChain a)) @ uint_bits 256 (unat (hash a)) @ rest) =
        uint_bits 8 (unat (workChain a))"
    by (simp add: length_uint_bits del: uint_bits.simps)
  moreover have "take 256 (drop 8 (uint_bits 8 (unat (workChain a)) @ uint_bits 256 (unat (hash a)) @ rest)) =
        uint_bits 256 (unat (hash a))"
    by (simp add: length_uint_bits del: uint_bits.simps)
  ultimately show ?thesis
    by (simp add: load_address_def address_bits_def length_uint_bits bits_uint_digest
        bits_uint_workchain del: uint_bits.simps)
qed

lemma load_coins_coins_bits:
  assumes "byte_length n < 16"
  shows "load_coins (coins_bits n @ rest) = Some (n, rest)"
proof -
  let ?l = "byte_length n"
  have l: "bits_uint (uint_bits 4 ?l) = ?l"
    using assms by (simp only: bits_uint_uint_bits) simp
  have "(2::nat) ^ (8 * ?l) = (2 ^ 8) ^ ?l" by (rule power_mult)
  then have "n < 2 ^ (8 * ?l)" using less_byte_length [of n] by simp
  then have n: "bits_uint (uint_bits (8 * ?l) n) = n"
    by (simp only: bits_uint_uint_bits mod_less)
  have t: "take 4 (coins_bits n @ rest) = uint_bits 4 ?l"
    by (simp add: coins_bits_def length_uint_bits del: uint_bits.simps)
  have d: "drop 4 (coins_bits n @ rest) = uint_bits (8 * ?l) n @ rest"
    by (simp add: coins_bits_def length_uint_bits del: uint_bits.simps)
  have d': "drop (4 + 8 * ?l) (coins_bits n @ rest) = rest"
    by (simp add: coins_bits_def length_uint_bits del: uint_bits.simps)
  have len: "\<not> (length (coins_bits n @ rest) < 4 \<or> length (coins_bits n @ rest) < 4 + 8 * ?l)"
    by (simp add: length_coins_bits)
  show ?thesis
    unfolding load_coins_def t l d d' using len
    by (simp add: length_uint_bits n del: uint_bits.simps)
qed

lemma bits_uint_tag: "t < 2 ^ 32 \<Longrightarrow> bits_uint (take 32 (uint_bits 32 t @ rest)) = t"
  by (simp add: length_uint_bits bits_uint_uint_bits del: uint_bits.simps)

lemma drop_header: "drop 96 (uint_bits 32 t @ uint_bits 64 q @ rest) = rest"
  by (simp add: length_uint_bits del: uint_bits.simps)

lemma decode_header:
  assumes "t < 2 ^ 32"
  shows "decode_message (Cell (uint_bits 32 t @ uint_bits 64 q @ rest) rs) =
     (if t = 1002 then
        (case rs of
           [] \<Rightarrow> None
         | r # _ \<Rightarrow>
             if length rest < 512 then None
             else Some (DeploySource (of_nat (bits_uint (take 256 rest)))
                          (of_nat (bits_uint (take 256 (drop 256 rest))))
                          (bits_bytes (cell_bits r))))
      else if t = 2003 then map_option ChangeVerifierSource (load_address rest)
      else if t = 3004 then map_option ChangeAdmin (load_address rest)
      else if t = 4005 then
        (case rs of [] \<Rightarrow> None | r # _ \<Rightarrow> Some (SetChildCodeTemplate r))
      else if t = 5006 then
        (case rs of [] \<Rightarrow> None | r # _ \<Rightarrow> Some (ReplaceRegistryCode r))
      else if t = 6007 then
        (case load_coins rest of
           None \<Rightarrow> None
         | Some (newMin, rest') \<Rightarrow>
             (case load_coins rest' of
                None \<Rightarrow> None
              | Some (newMax, _) \<Rightarrow> Some (SetFeeBounds newMin newMax)))
      else Some (UnknownOperation t))"
proof -
  have "bits_uint (take 32 (uint_bits 32 t @ uint_bits 64 q @ rest)) = t"
    using assms by (rule bits_uint_tag)
  moreover have "\<not> length (uint_bits 32 t @ uint_bits 64 q @ rest) < 96"
    by (simp add: length_uint_bits del: uint_bits.simps)
  ultimately show ?thesis
    unfolding decode_message_def Let_def Cell.sel drop_header by (simp only: if_False)
qed

lemma decode_deploySource:
  assumes "deploySource sha verifierId codeCellHash jsonURL = Inr body"
  shows "decode_message body =
     Some (DeploySource (sha verifierId)
       (of_nat (buffer_uint (Buffer_from_base64 codeCellHash))) jsonURL)"
proof -
  let ?n = "buffer_uint (Buffer_from_base64 codeCellHash)"
  from assms have fits: "?n < 2 ^ 256"
    and body: "body = Cell (uint_bits 32 1002 @ uint_bits 64 0 @ uint_bits 256 (unat (sha verifierId)) @
                      uint_bits 256 ?n) [Cell (buffer_bits jsonURL) []]"
    by (auto simp add: deploySource_eq split: if_splits simp del: uint_bits.simps)
  have "bits_uint (uint_bits 256 ?n) = ?n"
    using fits by (simp only: bits_uint_uint_bits mod_less)
  then show ?thesis
    unfolding body
    by (simp add: decode_header length_uint_bits bits_uint_digest bits_bytes_buffer_bits
        del: uint_bits.simps)
qed

lemma decode_changeVerifierRegistry:
  "changeVerifierRegistry a = Inr body \<Longrightarrow> decode_message body = Some (ChangeVerifierSource a)"
  using load_address_address_bits [of a "[]"]
  by (auto simp add: changeVerifierRegistry_eq decode_header simp del: uint_bits.simps)

lemma decode_changeAdmin:
  "changeAdmin a = Inr body \<Longrightarrow> decode_message body = Some (ChangeAdmin a)"
  using load_address_address_bits [of a "[]"]
  by (auto simp add: changeAdmin_eq decode_header simp del: uint_bits.simps)

lemma decode_setSourceItemCode:
  "setSourceItemCode c = Inr body \<Longrightarrow> decode_message body = Some (SetChildCodeTemplate c)"
  using decode_header [of 4005 0 "[]" "[c]"]
  by (auto simp add: setSourceItemCode_eq simp del: uint_bits.simps)

lemma decode_changeCode:
  "changeCode c = Inr body \<Longrightarrow> decode_message body = Some (ReplaceRegistryCode c)"
  using decode_header [of 5006 0 "[]" "[c]"]
  by (auto simp add: changeCode_eq simp del: uint_bits.simps)

lemma decode_setDeploymentCosts:
  assumes "setDeploymentCosts mn mx = Inr body"
  shows "decode_message body = Some (SetFeeBounds mn mx)"
proof -
  from assms have mn: "byte_length mn < 16" and mx: "byte_length mx < 16"
    and body: "body = Cell (uint_bits 32 6007 @ uint_bits 64 0 @ coins_bits mn @ coins_bits mx) []"
    by (auto simp add: setDeploymentCosts_eq split: if_splits simp del: uint_bits.simps)
  show ?thesis
    unfolding body
    using load_coins_coins_bits [OF mn, of "coins_bits mx"] load_coins_coins_bits [OF mx, of "[]"]
    by (simp add: decode_header del: uint_bits.simps)
qed

section \<open>The registry against the tests\<close>

lemma test_deploy_body:
  "\<exists>body. deploySource sha ''my verifier'' ''E/XXoxbG124QU+iKxZtd5loHKjiEUTcdxcW+y7oT9Q4=''
       ''https://myjson.com/sources.json'' = Inr body \<and>
     decode_message body = Some (DeploySource (sha ''my verifier'')
       (of_nat (buffer_uint (Buffer_from_base64 ''E/XXoxbG124QU+iKxZtd5loHKjiEUTcdxcW+y7oT9Q4='')))
       ''https://myjson.com/sources.json'')"
proof -
  have u: "length ''https://myjson.com/sources.json'' \<le> 128" by simp
  have "\<exists>body. deploySource sha ''my verifier'' ''E/XXoxbG124QU+iKxZtd5loHKjiEUTcdxcW+y7oT9Q4=''
       ''https://myjson.com/sources.json'' = Inr body"
    using buffer_uint_fits [of "Buffer_from_base64 ''E/XXoxbG124QU+iKxZtd5loHKjiEUTcdxcW+y7oT9Q4=''"]
      test_hash_length u
    unfolding deploySource_eq by simp
  then show ?thesis using decode_deploySource by blast
qed

text \<open>
  The model passes the deploy tests of the repository: 0.5 units from the verifier
  source succeed, another sender gets 401, 0.049 units get 900 and 1.01 units get 901.
\<close>

lemma deploy_tests_pass:
  "test_deploy_exit_code sha dg min_floor max_first self (test_registry adm ver template code) ver 500000000 = Some 0"
  "sender \<noteq> ver \<Longrightarrow>
     test_deploy_exit_code sha dg min_floor max_first self (test_registry adm ver template code) sender val = Some 401"
  "test_deploy_exit_code sha dg min_floor max_first self (test_registry adm ver template code) ver 49000000 = Some 900"
  "test_deploy_exit_code sha dg min_floor max_first self (test_registry adm ver template code) ver 1010000000 = Some 901"
  using test_deploy_body [of sha]
  by (auto simp add: test_deploy_exit_code_def registry_receive_def test_registry_def)

text \<open>
  And the tests of the admin's operations: an empty code is refused with 902, but only
  from the admin (anyone else gets 401 first); a code of one bit replaces the registry's
  code or the child code template; a new verifier source may deploy.
\<close>

lemma admin_tests_pass:
  assumes "changeCode (Cell [] []) = Inr e1" and "changeCode (Cell [True] []) = Inr o1"
    and "setSourceItemCode (Cell [] []) = Inr e2" and "setSourceItemCode (Cell [True] []) = Inr o2"
    and "changeVerifierRegistry new = Inr cv" and "changeAdmin new = Inr ca"
    and "other \<noteq> adm"
  shows
    "registry_receive dg fl mf self (test_registry adm ver t c) \<lparr>senderAddress = adm, attachedValue = v\<rparr> e1 =
       (test_registry adm ver t c, Rejection 902)"
    "registry_receive dg fl mf self (test_registry adm ver t c) \<lparr>senderAddress = other, attachedValue = v\<rparr> e1 =
       (test_registry adm ver t c, Rejection 401)"
    "registry_receive dg fl mf self (test_registry adm ver t c) \<lparr>senderAddress = adm, attachedValue = v\<rparr> o1 =
       (test_registry adm ver t (Cell [True] []), Success None)"
    "registry_receive dg fl mf self (test_registry adm ver t c) \<lparr>senderAddress = adm, attachedValue = v\<rparr> e2 =
       (test_registry adm ver t c, Rejection 902)"
    "registry_receive dg fl mf self (test_registry adm ver t c) \<lparr>senderAddress = other, attachedValue = v\<rparr> e2 =
       (test_registry adm ver t c, Rejection 401)"
    "registry_receive dg fl mf self (test_registry adm ver t c) \<lparr>senderAddress = adm, attachedValue = v\<rparr> o2 =
       (test_registry adm ver (Cell [True] []) c, Success None)"
    "registry_receive dg fl mf self (test_registry adm ver t c) \<lparr>senderAddress = adm, attachedValue = v\<rparr> cv =
       (test_registry adm new t c, Success None)"
    "registry_receive dg fl mf self (test_registry adm ver t c) \<lparr>senderAddress = other, attachedValue = v\<rparr> cv =
       (test_registry adm ver t c, Rejection 401)"
    "registry_receive dg fl mf self (test_registry adm ver t c) \<lparr>senderAddress = adm, attachedValue = v\<rparr> ca =
       (test_registry new ver t c, Success None)"
    "registry_receive dg fl mf self (test_registry adm ver t c) \<lparr>senderAddress = other, attachedValue = v\<rparr> ca =
       (test_registry adm ver t c, Rejection 401)"
    "test_deploy_exit_code sha dg fl mf self (test_registry adm new t c) new 500000000 = Some 0"
  using assms decode_changeCode [OF assms(1)] decode_changeCode [OF assms(2)]
    decode_setSourceItemCode [OF assms(3)] decode_setSourceItemCode [OF assms(4)]
    decode_changeVerifierRegistry [OF assms(5)] decode_changeAdmin [OF assms(6)]
    deploy_tests_pass(1) [of sha dg fl mf self adm new t c]
  by (simp_all add: registry_receive_def test_registry_def empty_code_def)

text \<open>
  \<open>it("Allows changing min and max ton deployment costs")\<close>: once the admin has set
  the bounds to 10 and 20 units, 9 units get 900, 19 units succeed and 20.1 units get
  901.  The lower bound of the contract lets a minimum of 10 units through.
\<close>

lemma deployment_cost_test_passes:
  assumes "setDeploymentCosts 10000000000 20000000000 = Inr body"
    and "min_floor \<le> 10000000000"
    and "registry_receive dg min_floor max_first self (test_registry adm ver t c)
           \<lparr>senderAddress = adm, attachedValue = 10000000\<rparr> body = (st, out)"
  shows "exit_code out = 0" and "minFee st = 10000000000" and "maxFee st = 20000000000"
    and "test_deploy_exit_code sha dg min_floor max_first self st ver 9000000000 = Some 900"
    and "test_deploy_exit_code sha dg min_floor max_first self st ver 19000000000 = Some 0"
    and "test_deploy_exit_code sha dg min_floor max_first self st ver 20100000000 = Some 901"
proof -
  have st: "st = (test_registry adm ver t c)\<lparr>minFee := 10000000000, maxFee := 20000000000\<rparr>"
    and out: "out = Success None"
    using assms(2,3) decode_setDeploymentCosts [OF assms(1)]
    by (auto simp add: registry_receive_def test_registry_def)
  show "exit_code out = 0" "minFee st = 10000000000" "maxFee st = 20000000000"
    by (simp_all add: st out)
  show "test_deploy_exit_code sha dg min_floor max_first self st ver 9000000000 = Some 900"
    "test_deploy_exit_code sha dg min_floor max_first self st ver 19000000000 = Some 0"
    "test_deploy_exit_code sha dg min_floor max_first self st ver 20100000000 = Some 901"
    using test_deploy_body [of sha]
    by (auto simp add: test_deploy_exit_code_def registry_receive_def test_registry_def st)
qed

section \<open>The registry and the child record\<close>

subsection \<open>The fee window of a deploy request\<close>

text \<open>
  Claim C5, as amended: for every deploy message sent by the configured verifier
  source, an attached value strictly below \<open>minFee\<close> and not above \<open>maxFee\<close> is
  rejected with code 900; an attached value strictly above \<open>maxFee\<close> and not below
  \<open>minFee\<close> is rejected with code 901; an attached value from \<open>minFee\<close> to \<open>maxFee\<close>,
  both included, succeeds with code 0, so that a value of exactly \<open>minFee\<close> or exactly
  \<open>maxFee\<close> succeeds whenever \<open>minFee\<close> is not above \<open>maxFee\<close>; and a value both below
  \<open>minFee\<close> and above \<open>maxFee\<close>, which there is only when \<open>minFee\<close> is above
  \<open>maxFee\<close>, is rejected with 901 if the contract checks the maximum first and with 900
  otherwise.  The registry's state is the same afterwards in all four cases.
\<close>

theorem deploy_fee_window:
  assumes "senderAddress ctx = verifierSource st"
  shows "(attachedValue ctx < minFee st \<and> attachedValue ctx \<le> maxFee st \<longrightarrow>
            registry_apply dg min_floor max_first self st ctx (DeploySource vk ck pointer) =
              (st, Rejection 900)) \<and>
         (maxFee st < attachedValue ctx \<and> minFee st \<le> attachedValue ctx \<longrightarrow>
            registry_apply dg min_floor max_first self st ctx (DeploySource vk ck pointer) =
              (st, Rejection 901)) \<and>
         (minFee st \<le> attachedValue ctx \<and> attachedValue ctx \<le> maxFee st \<longrightarrow>
            fst (registry_apply dg min_floor max_first self st ctx (DeploySource vk ck pointer)) = st \<and>
            exit_code (snd (registry_apply dg min_floor max_first self st ctx
              (DeploySource vk ck pointer))) = 0) \<and>
         (attachedValue ctx < minFee st \<and> maxFee st < attachedValue ctx \<longrightarrow>
            registry_apply dg min_floor max_first self st ctx (DeploySource vk ck pointer) =
              (st, Rejection (if max_first then 901 else 900)))"
  using assms by simp

theorem deploy_fee_window_witness:
  "registry_apply null_image_digest 65000000 False \<lparr>workChain = 0, hash = 3\<rparr>
      (test_registry \<lparr>workChain = 0, hash = 1\<rparr> \<lparr>workChain = 0, hash = 2\<rparr> (Cell [True] []) (Cell [True] []))
      \<lparr>senderAddress = \<lparr>workChain = 0, hash = 2\<rparr>, attachedValue = 49000000\<rparr>
      (DeploySource 7 9 ''https://myjson.com/sources.json'') =
    (test_registry \<lparr>workChain = 0, hash = 1\<rparr> \<lparr>workChain = 0, hash = 2\<rparr> (Cell [True] []) (Cell [True] []),
     Rejection 900) \<and>
   registry_apply null_image_digest 65000000 True \<lparr>workChain = 0, hash = 3\<rparr>
      (test_registry \<lparr>workChain = 0, hash = 1\<rparr> \<lparr>workChain = 0, hash = 2\<rparr> (Cell [True] []) (Cell [True] []))
      \<lparr>senderAddress = \<lparr>workChain = 0, hash = 2\<rparr>, attachedValue = 1010000000\<rparr>
      (DeploySource 7 9 ''https://myjson.com/sources.json'') =
    (test_registry \<lparr>workChain = 0, hash = 1\<rparr> \<lparr>workChain = 0, hash = 2\<rparr> (Cell [True] []) (Cell [True] []),
     Rejection 901) \<and>
   exit_code (snd (registry_apply null_image_digest 65000000 False \<lparr>workChain = 0, hash = 3\<rparr>
      (test_registry \<lparr>workChain = 0, hash = 1\<rparr> \<lparr>workChain = 0, hash = 2\<rparr> (Cell [True] []) (Cell [True] []))
      \<lparr>senderAddress = \<lparr>workChain = 0, hash = 2\<rparr>, attachedValue = 65000000\<rparr>
      (DeploySource 7 9 ''https://myjson.com/sources.json''))) = 0 \<and>
   exit_code (snd (registry_apply null_image_digest 65000000 True \<lparr>workChain = 0, hash = 3\<rparr>
      (test_registry \<lparr>workChain = 0, hash = 1\<rparr> \<lparr>workChain = 0, hash = 2\<rparr> (Cell [True] []) (Cell [True] []))
      \<lparr>senderAddress = \<lparr>workChain = 0, hash = 2\<rparr>, attachedValue = 1000000000\<rparr>
      (DeploySource 7 9 ''https://myjson.com/sources.json''))) = 0 \<and>
   registry_apply null_image_digest 65000000 True \<lparr>workChain = 0, hash = 3\<rparr>
      ((test_registry \<lparr>workChain = 0, hash = 1\<rparr> \<lparr>workChain = 0, hash = 2\<rparr> (Cell [True] []) (Cell [True] []))
         \<lparr>minFee := 10000000000, maxFee := 1000000000\<rparr>)
      \<lparr>senderAddress = \<lparr>workChain = 0, hash = 2\<rparr>, attachedValue = 5000000000\<rparr>
      (DeploySource 7 9 ''https://myjson.com/sources.json'') =
    ((test_registry \<lparr>workChain = 0, hash = 1\<rparr> \<lparr>workChain = 0, hash = 2\<rparr> (Cell [True] []) (Cell [True] []))
         \<lparr>minFee := 10000000000, maxFee := 1000000000\<rparr>,
     Rejection (if True then 901 else 900))"
proof -
  let ?st = "test_registry \<lparr>workChain = 0, hash = 1\<rparr> \<lparr>workChain = 0, hash = 2\<rparr> (Cell [True] []) (Cell [True] [])"
  let ?st' = "?st\<lparr>minFee := 10000000000, maxFee := 1000000000\<rparr>"
  have s: "senderAddress \<lparr>senderAddress = \<lparr>workChain = 0, hash = 2\<rparr>, attachedValue = v\<rparr> = verifierSource ?st"
    for v by (simp add: test_registry_def)
  have s': "senderAddress \<lparr>senderAddress = \<lparr>workChain = 0, hash = 2\<rparr>, attachedValue = v\<rparr> = verifierSource ?st'"
    for v by (simp add: test_registry_def)
  have m: "minFee ?st = 65000000" "maxFee ?st = 1000000000"
    "minFee ?st' = 10000000000" "maxFee ?st' = 1000000000"
    by (simp_all add: test_registry_def)
  have a: "attachedValue \<lparr>senderAddress = \<lparr>workChain = 0, hash = 2\<rparr>, attachedValue = 49000000\<rparr> < minFee ?st \<and>
      attachedValue \<lparr>senderAddress = \<lparr>workChain = 0, hash = 2\<rparr>, attachedValue = 49000000\<rparr> \<le> maxFee ?st"
    unfolding m by simp
  have b: "maxFee ?st < attachedValue \<lparr>senderAddress = \<lparr>workChain = 0, hash = 2\<rparr>, attachedValue = 1010000000\<rparr> \<and>
      minFee ?st \<le> attachedValue \<lparr>senderAddress = \<lparr>workChain = 0, hash = 2\<rparr>, attachedValue = 1010000000\<rparr>"
    unfolding m by simp
  have c: "minFee ?st \<le> attachedValue \<lparr>senderAddress = \<lparr>workChain = 0, hash = 2\<rparr>, attachedValue = 65000000\<rparr> \<and>
      attachedValue \<lparr>senderAddress = \<lparr>workChain = 0, hash = 2\<rparr>, attachedValue = 65000000\<rparr> \<le> maxFee ?st"
    unfolding m by simp
  have d: "minFee ?st \<le> attachedValue \<lparr>senderAddress = \<lparr>workChain = 0, hash = 2\<rparr>, attachedValue = 1000000000\<rparr> \<and>
      attachedValue \<lparr>senderAddress = \<lparr>workChain = 0, hash = 2\<rparr>, attachedValue = 1000000000\<rparr> \<le> maxFee ?st"
    unfolding m by simp
  have e: "attachedValue \<lparr>senderAddress = \<lparr>workChain = 0, hash = 2\<rparr>, attachedValue = 5000000000\<rparr> < minFee ?st' \<and>
      maxFee ?st' < attachedValue \<lparr>senderAddress = \<lparr>workChain = 0, hash = 2\<rparr>, attachedValue = 5000000000\<rparr>"
    unfolding m by simp
  show ?thesis
    by (intro conjI
        deploy_fee_window [OF s, THEN conjunct1, rule_format, OF a]
        deploy_fee_window [OF s, THEN conjunct2, THEN conjunct1, rule_format, OF b]
        deploy_fee_window [OF s, THEN conjunct2, THEN conjunct2, THEN conjunct1, rule_format, OF c,
          THEN conjunct2]
        deploy_fee_window [OF s, THEN conjunct2, THEN conjunct2, THEN conjunct1, rule_format, OF d,
          THEN conjunct2]
        deploy_fee_window [OF s', THEN conjunct2, THEN conjunct2, THEN conjunct2, rule_format, OF e])
qed

text \<open>
  The claim as stated fails where the minimum is above the maximum, which the
  registry allows (only the new minimum is checked).  After the admin has set the bounds
  to 10 and 1 units, a value of exactly \<open>minFee\<close>, 10 units, is above the maximum and
  is rejected with 901, and a value of exactly \<open>maxFee\<close>, 1 unit, is below the minimum
  and is rejected with 900, whichever check comes first; the claim has both succeed.
\<close>

theorem deploy_fee_window_counterexample:
  "registry_apply null_image_digest 65000000 False \<lparr>workChain = 0, hash = 3\<rparr>
      (test_registry \<lparr>workChain = 0, hash = 1\<rparr> \<lparr>workChain = 0, hash = 2\<rparr> (Cell [True] []) (Cell [True] []))
      \<lparr>senderAddress = \<lparr>workChain = 0, hash = 1\<rparr>, attachedValue = 10000000\<rparr>
      (SetFeeBounds 10000000000 1000000000) =
    ((test_registry \<lparr>workChain = 0, hash = 1\<rparr> \<lparr>workChain = 0, hash = 2\<rparr> (Cell [True] []) (Cell [True] []))
       \<lparr>minFee := 10000000000, maxFee := 1000000000\<rparr>, Success None) \<and>
   exit_code (snd (registry_apply null_image_digest 65000000 False \<lparr>workChain = 0, hash = 3\<rparr>
      ((test_registry \<lparr>workChain = 0, hash = 1\<rparr> \<lparr>workChain = 0, hash = 2\<rparr> (Cell [True] []) (Cell [True] []))
         \<lparr>minFee := 10000000000, maxFee := 1000000000\<rparr>)
      \<lparr>senderAddress = \<lparr>workChain = 0, hash = 2\<rparr>, attachedValue = 10000000000\<rparr>
      (DeploySource 7 9 ''https://myjson.com/sources.json''))) = 901 \<and>
   exit_code (snd (registry_apply null_image_digest 65000000 True \<lparr>workChain = 0, hash = 3\<rparr>
      ((test_registry \<lparr>workChain = 0, hash = 1\<rparr> \<lparr>workChain = 0, hash = 2\<rparr> (Cell [True] []) (Cell [True] []))
         \<lparr>minFee := 10000000000, maxFee := 1000000000\<rparr>)
      \<lparr>senderAddress = \<lparr>workChain = 0, hash = 2\<rparr>, attachedValue = 10000000000\<rparr>
      (DeploySource 7 9 ''https://myjson.com/sources.json''))) = 901 \<and>
   exit_code (snd (registry_apply null_image_digest 65000000 False \<lparr>workChain = 0, hash = 3\<rparr>
      ((test_registry \<lparr>workChain = 0, hash = 1\<rparr> \<lparr>workChain = 0, hash = 2\<rparr> (Cell [True] []) (Cell [True] []))
         \<lparr>minFee := 10000000000, maxFee := 1000000000\<rparr>)
      \<lparr>senderAddress = \<lparr>workChain = 0, hash = 2\<rparr>, attachedValue = 1000000000\<rparr>
      (DeploySource 7 9 ''https://myjson.com/sources.json''))) = 900 \<and>
   exit_code (snd (registry_apply null_image_digest 65000000 True \<lparr>workChain = 0, hash = 3\<rparr>
      ((test_registry \<lparr>workChain = 0, hash = 1\<rparr> \<lparr>workChain = 0, hash = 2\<rparr> (Cell [True] []) (Cell [True] []))
         \<lparr>minFee := 10000000000, maxFee := 1000000000\<rparr>)
      \<lparr>senderAddress = \<lparr>workChain = 0, hash = 2\<rparr>, attachedValue = 1000000000\<rparr>
      (DeploySource 7 9 ''https://myjson.com/sources.json''))) = 900"
  by (simp add: test_registry_def)

subsection \<open>Unauthorised senders\<close>

text \<open>
  Claim C6: every deploy request whose sender differs from the stored verifier-source
  address, and every admin-gated operation (change verifier source, change admin, set
  child code template, replace registry code, set fee bounds) whose sender differs from
  the stored admin address, is rejected with code 401 and leaves the registry state
  unchanged.
\<close>

theorem unauthorized_rejected:
  "(senderAddress ctx \<noteq> verifierSource st \<longrightarrow>
      registry_apply dg min_floor max_first self st ctx (DeploySource vk ck pointer) = (st, Rejection 401)) \<and>
   (senderAddress ctx \<noteq> admin st \<longrightarrow>
      registry_apply dg min_floor max_first self st ctx (ChangeVerifierSource newAddress) = (st, Rejection 401) \<and>
      registry_apply dg min_floor max_first self st ctx (ChangeAdmin newAddress) = (st, Rejection 401) \<and>
      registry_apply dg min_floor max_first self st ctx (SetChildCodeTemplate newCode) = (st, Rejection 401) \<and>
      registry_apply dg min_floor max_first self st ctx (ReplaceRegistryCode newCode) = (st, Rejection 401) \<and>
      registry_apply dg min_floor max_first self st ctx (SetFeeBounds newMin newMax) = (st, Rejection 401))"
  by simp

theorem unauthorized_rejected_witness:
  "registry_apply null_image_digest 65000000 False \<lparr>workChain = 0, hash = 3\<rparr>
      (test_registry \<lparr>workChain = 0, hash = 1\<rparr> \<lparr>workChain = 0, hash = 2\<rparr> (Cell [True] []) (Cell [True] []))
      \<lparr>senderAddress = \<lparr>workChain = 0, hash = 4\<rparr>, attachedValue = 500000000\<rparr>
      (DeploySource 7 9 ''https://myjson.com/sources.json'') =
    (test_registry \<lparr>workChain = 0, hash = 1\<rparr> \<lparr>workChain = 0, hash = 2\<rparr> (Cell [True] []) (Cell [True] []),
     Rejection 401) \<and>
   registry_apply null_image_digest 65000000 False \<lparr>workChain = 0, hash = 3\<rparr>
      (test_registry \<lparr>workChain = 0, hash = 1\<rparr> \<lparr>workChain = 0, hash = 2\<rparr> (Cell [True] []) (Cell [True] []))
      \<lparr>senderAddress = \<lparr>workChain = 0, hash = 4\<rparr>, attachedValue = 500000000\<rparr>
      (SetFeeBounds 10000000000 20000000000) =
    (test_registry \<lparr>workChain = 0, hash = 1\<rparr> \<lparr>workChain = 0, hash = 2\<rparr> (Cell [True] []) (Cell [True] []),
     Rejection 401) \<and>
   registry_apply null_image_digest 65000000 False \<lparr>workChain = 0, hash = 3\<rparr>
      (test_registry \<lparr>workChain = 0, hash = 1\<rparr> \<lparr>workChain = 0, hash = 2\<rparr> (Cell [True] []) (Cell [True] []))
      \<lparr>senderAddress = \<lparr>workChain = 0, hash = 4\<rparr>, attachedValue = 500000000\<rparr>
      (ReplaceRegistryCode (Cell [] [])) =
    (test_registry \<lparr>workChain = 0, hash = 1\<rparr> \<lparr>workChain = 0, hash = 2\<rparr> (Cell [True] []) (Cell [True] []),
     Rejection 401)"
proof -
  let ?st = "test_registry \<lparr>workChain = 0, hash = 1\<rparr> \<lparr>workChain = 0, hash = 2\<rparr> (Cell [True] []) (Cell [True] [])"
  let ?ctx = "\<lparr>senderAddress = \<lparr>workChain = 0, hash = 4\<rparr>, attachedValue = 500000000\<rparr>"
  have v: "senderAddress ?ctx \<noteq> verifierSource ?st"
    by (simp add: test_registry_def)
  have a: "senderAddress ?ctx \<noteq> admin ?st"
    by (simp add: test_registry_def)
  show ?thesis
    by (intro conjI
        unauthorized_rejected [THEN conjunct1, rule_format, OF v]
        unauthorized_rejected [THEN conjunct2, rule_format, OF a, THEN conjunct2, THEN conjunct2,
          THEN conjunct2, THEN conjunct2]
        unauthorized_rejected [THEN conjunct2, rule_format, OF a, THEN conjunct2, THEN conjunct2,
          THEN conjunct2, THEN conjunct1])
qed

subsection \<open>The lower bound of the minimum fee\<close>

lemma test_rejects_min_below_lower_bound_iff:
  "test_rejects_min_below_lower_bound dg min_floor max_first self adm ver template code \<longleftrightarrow>
     50000000 < min_floor"
proof -
  have bl: "byte_length 50000000 = 4" "byte_length 20000000000 = 5"
    by (simp_all add: byte_length.simps)
  have "\<exists>body. setDeploymentCosts 50000000 20000000000 = Inr body"
    unfolding setDeploymentCosts_eq bl by simp
  then obtain body where b: "setDeploymentCosts 50000000 20000000000 = Inr body" ..
  then have "decode_message body = Some (SetFeeBounds 50000000 20000000000)"
    by (rule decode_setDeploymentCosts)
  with b show ?thesis
    by (auto simp add: test_rejects_min_below_lower_bound_def registry_receive_def test_registry_def)
qed

text \<open>
  Claim C7, as amended: SetFeeBounds(newMin, newMax) from the admin succeeds and sets
  \<open>minFee\<close> to newMin and \<open>maxFee\<close> to newMax whenever newMin is at or above the fixed
  protocol-defined lower bound, and is rejected with code 903 (the state unchanged)
  whenever newMin is below that bound; newMax is not checked.  The lower bound is
  greater than 0.05 native units: the repository's test sets newMin to 0.05 and expects
  903, and it passes exactly when the bound is above 50000000.
\<close>

theorem set_fee_bounds:
  "(senderAddress ctx = admin st \<and> min_floor \<le> newMin \<longrightarrow>
      registry_apply dg min_floor max_first self st ctx (SetFeeBounds newMin newMax) =
        (st\<lparr>minFee := newMin, maxFee := newMax\<rparr>, Success None)) \<and>
   (senderAddress ctx = admin st \<and> newMin < min_floor \<longrightarrow>
      registry_apply dg min_floor max_first self st ctx (SetFeeBounds newMin newMax) = (st, Rejection 903)) \<and>
   (test_rejects_min_below_lower_bound dg min_floor max_first self adm ver template code \<longleftrightarrow>
      50000000 < min_floor)"
  by (simp add: test_rejects_min_below_lower_bound_iff)

theorem set_fee_bounds_witness:
  "registry_apply null_image_digest 65000000 False \<lparr>workChain = 0, hash = 3\<rparr>
      (test_registry \<lparr>workChain = 0, hash = 1\<rparr> \<lparr>workChain = 0, hash = 2\<rparr> (Cell [True] []) (Cell [True] []))
      \<lparr>senderAddress = \<lparr>workChain = 0, hash = 1\<rparr>, attachedValue = 10000000\<rparr>
      (SetFeeBounds 10000000000 20000000000) =
    ((test_registry \<lparr>workChain = 0, hash = 1\<rparr> \<lparr>workChain = 0, hash = 2\<rparr> (Cell [True] []) (Cell [True] []))
       \<lparr>minFee := 10000000000, maxFee := 20000000000\<rparr>, Success None) \<and>
   registry_apply null_image_digest 65000000 False \<lparr>workChain = 0, hash = 3\<rparr>
      (test_registry \<lparr>workChain = 0, hash = 1\<rparr> \<lparr>workChain = 0, hash = 2\<rparr> (Cell [True] []) (Cell [True] []))
      \<lparr>senderAddress = \<lparr>workChain = 0, hash = 1\<rparr>, attachedValue = 10000000\<rparr>
      (SetFeeBounds 50000000 20000000000) =
    (test_registry \<lparr>workChain = 0, hash = 1\<rparr> \<lparr>workChain = 0, hash = 2\<rparr> (Cell [True] []) (Cell [True] []),
     Rejection 903)"
proof -
  let ?st = "test_registry \<lparr>workChain = 0, hash = 1\<rparr> \<lparr>workChain = 0, hash = 2\<rparr> (Cell [True] []) (Cell [True] [])"
  let ?ctx = "\<lparr>senderAddress = \<lparr>workChain = 0, hash = 1\<rparr>, attachedValue = 10000000\<rparr>"
  have a: "senderAddress ?ctx = admin ?st \<and> (65000000::nat) \<le> 10000000000"
    by (simp add: test_registry_def)
  have b: "senderAddress ?ctx = admin ?st \<and> (50000000::nat) < 65000000"
    by (simp add: test_registry_def)
  show ?thesis
    by (intro conjI
        set_fee_bounds [THEN conjunct1, rule_format, OF a]
        set_fee_bounds [THEN conjunct2, THEN conjunct1, rule_format, OF b])
qed

text \<open>
  The claim as stated puts the lower bound at 0.05 native units, so that a new minimum
  of exactly 0.05 is accepted.  Against a registry with that bound the repository's test
  \<open>Rejects changing min below lower bound\<close> fails: the admin's
  \<open>setDeploymentCosts(toNano(0.05), toNano(20))\<close> succeeds where the test expects 903.
\<close>

theorem set_fee_bounds_counterexample:
  "\<not> test_rejects_min_below_lower_bound null_image_digest 50000000 False \<lparr>workChain = 0, hash = 3\<rparr>
       \<lparr>workChain = 0, hash = 1\<rparr> \<lparr>workChain = 0, hash = 2\<rparr> (Cell [True] []) (Cell [True] []) \<and>
   registry_apply null_image_digest 50000000 False \<lparr>workChain = 0, hash = 3\<rparr>
      (test_registry \<lparr>workChain = 0, hash = 1\<rparr> \<lparr>workChain = 0, hash = 2\<rparr> (Cell [True] []) (Cell [True] []))
      \<lparr>senderAddress = \<lparr>workChain = 0, hash = 1\<rparr>, attachedValue = 10000000\<rparr>
      (SetFeeBounds 50000000 20000000000) =
    ((test_registry \<lparr>workChain = 0, hash = 1\<rparr> \<lparr>workChain = 0, hash = 2\<rparr> (Cell [True] []) (Cell [True] []))
       \<lparr>minFee := 50000000, maxFee := 20000000000\<rparr>, Success None)"
  by (simp add: test_rejects_min_below_lower_bound_iff test_registry_def)

subsection \<open>The content pointer of a child record\<close>

lemma registry_receive_deploy:
  assumes "deploySource sha verifierId codeCellHash jsonURL = Inr body"
    and "registry_receive dg min_floor max_first self st ctx body = (st', Success (Some act))"
  shows "initialStorage act =
           initial_storage (sha verifierId)
             (of_nat (buffer_uint (Buffer_from_base64 codeCellHash))) self \<and>
         forwardedPointer act = jsonURL"
  using assms(2) decode_deploySource [OF assms(1)]
  by (auto simp add: registry_receive_def split: if_splits)

text \<open>
  Claim C8: a freshly deployed child record's read-only query reports no content
  pointer, and keeps reporting none whatever it receives from senders other than its
  creating registry; once it has received the forwarded set-content message from the
  registry, the query reports exactly the pointer bytes that were sent in the deploy
  request.
\<close>

theorem child_content_pointer:
  assumes "deploySource sha verifierId codeCellHash jsonURL = Inr body"
    and "registry_receive dg min_floor max_first self st ctx body = (st', Success (Some act))"
  shows "child_query (initialStorage act) =
           (sha verifierId, of_nat (buffer_uint (Buffer_from_base64 codeCellHash)), self, None) \<and>
         (sender \<noteq> self \<longrightarrow>
            child_query (fst (child_receive (initialStorage act) sender p)) =
              (sha verifierId, of_nat (buffer_uint (Buffer_from_base64 codeCellHash)), self, None)) \<and>
         child_query (fst (child_receive (initialStorage act) self (forwardedPointer act))) =
           (sha verifierId, of_nat (buffer_uint (Buffer_from_base64 codeCellHash)), self,
            Some jsonURL)"
  using registry_receive_deploy [OF assms]
  by (simp add: child_query_def child_receive_def initial_storage_def)

theorem child_content_pointer_witness:
  "\<exists>body act.
     deploySource null_digest ''my verifier'' ''E/XXoxbG124QU+iKxZtd5loHKjiEUTcdxcW+y7oT9Q4=''
       ''https://myjson.com/sources.json'' = Inr body \<and>
     registry_receive null_image_digest 65000000 False \<lparr>workChain = 0, hash = 3\<rparr>
       (test_registry \<lparr>workChain = 0, hash = 1\<rparr> \<lparr>workChain = 0, hash = 2\<rparr> (Cell [True] []) (Cell [True] []))
       \<lparr>senderAddress = \<lparr>workChain = 0, hash = 2\<rparr>, attachedValue = 500000000\<rparr> body =
       (test_registry \<lparr>workChain = 0, hash = 1\<rparr> \<lparr>workChain = 0, hash = 2\<rparr> (Cell [True] []) (Cell [True] []),
        Success (Some act)) \<and>
     snd (snd (snd (child_query (initialStorage act)))) = None \<and>
     snd (snd (snd (child_query (fst (child_receive (initialStorage act) \<lparr>workChain = 0, hash = 3\<rparr>
       (forwardedPointer act)))))) = Some ''https://myjson.com/sources.json''"
proof -
  let ?st = "test_registry \<lparr>workChain = 0, hash = 1\<rparr> \<lparr>workChain = 0, hash = 2\<rparr> (Cell [True] []) (Cell [True] [])"
  let ?ctx = "\<lparr>senderAddress = \<lparr>workChain = 0, hash = 2\<rparr>, attachedValue = 500000000\<rparr>"
  obtain body where b: "deploySource null_digest ''my verifier''
      ''E/XXoxbG124QU+iKxZtd5loHKjiEUTcdxcW+y7oT9Q4='' ''https://myjson.com/sources.json'' = Inr body"
    and d: "decode_message body = Some (DeploySource (null_digest ''my verifier'')
       (of_nat (buffer_uint (Buffer_from_base64 ''E/XXoxbG124QU+iKxZtd5loHKjiEUTcdxcW+y7oT9Q4='')))
       ''https://myjson.com/sources.json'')"
    using test_deploy_body [of null_digest] by blast
  have "\<exists>act. registry_receive null_image_digest 65000000 False \<lparr>workChain = 0, hash = 3\<rparr> ?st ?ctx body =
      (?st, Success (Some act))"
    by (simp add: registry_receive_def d test_registry_def)
  then obtain act where r: "registry_receive null_image_digest 65000000 False \<lparr>workChain = 0, hash = 3\<rparr>
      ?st ?ctx body = (?st, Success (Some act))" ..
  from child_content_pointer [OF b r, of "\<lparr>workChain = 0, hash = 3\<rparr>" "[]"]
  have "snd (snd (snd (child_query (initialStorage act)))) = None \<and>
     snd (snd (snd (child_query (fst (child_receive (initialStorage act) \<lparr>workChain = 0, hash = 3\<rparr>
       (forwardedPointer act)))))) = Some ''https://myjson.com/sources.json''"
    by simp
  with b r show ?thesis by blast
qed

end
